theory Spec2Isabelle
  imports Complex_Main "HOL-Library.AList" "HOL-Library.Multiset"
begin

section \<open>JavaScript numbers\<close>

text \<open>
  A JavaScript Number is modelled as a real number, one of the two infinities, or NaN.
  Arithmetic on finite values is exact: the rounding of IEEE doubles, overflow to an
  infinity and the sign of zero are not modelled. Comparisons follow the language: every
  comparison with NaN is false. Where a score is compared with one computed in exact
  decimal arithmetic, the statement is therefore made on the values each side has
  computed, not on the raw inputs.
\<close>

datatype jsnum = Fin real | PInf | NInf | NaN

fun js_lt :: "jsnum \<Rightarrow> jsnum \<Rightarrow> bool" where
  "js_lt (Fin a) (Fin b) = (a < b)"
| "js_lt (Fin a) PInf = True"
| "js_lt NInf (Fin b) = True"
| "js_lt NInf PInf = True"
| "js_lt _ _ = False"

definition js_gt :: "jsnum \<Rightarrow> jsnum \<Rightarrow> bool" where
  "js_gt a b = js_lt b a"

definition js_le :: "jsnum \<Rightarrow> jsnum \<Rightarrow> bool" where
  "js_le a b = (a \<noteq> NaN \<and> b \<noteq> NaN \<and> \<not> js_lt b a)"

definition js_ge :: "jsnum \<Rightarrow> jsnum \<Rightarrow> bool" where
  "js_ge a b = js_le b a"

fun js_mul :: "jsnum \<Rightarrow> jsnum \<Rightarrow> jsnum" where
  "js_mul (Fin a) (Fin b) = Fin (a * b)"
| "js_mul NaN _ = NaN"
| "js_mul _ NaN = NaN"
| "js_mul (Fin a) PInf = (if a = 0 then NaN else if 0 < a then PInf else NInf)"
| "js_mul (Fin a) NInf = (if a = 0 then NaN else if 0 < a then NInf else PInf)"
| "js_mul PInf (Fin b) = (if b = 0 then NaN else if 0 < b then PInf else NInf)"
| "js_mul NInf (Fin b) = (if b = 0 then NaN else if 0 < b then NInf else PInf)"
| "js_mul PInf PInf = PInf"
| "js_mul NInf NInf = PInf"
| "js_mul PInf NInf = NInf"
| "js_mul NInf PInf = NInf"

fun js_add :: "jsnum \<Rightarrow> jsnum \<Rightarrow> jsnum" where
  "js_add (Fin a) (Fin b) = Fin (a + b)"
| "js_add NaN _ = NaN"
| "js_add _ NaN = NaN"
| "js_add PInf NInf = NaN"
| "js_add NInf PInf = NaN"
| "js_add PInf _ = PInf"
| "js_add _ PInf = PInf"
| "js_add NInf _ = NInf"
| "js_add _ NInf = NInf"

text \<open>Division by a finite non-zero constant, the only division the sources perform.\<close>

fun js_div :: "jsnum \<Rightarrow> real \<Rightarrow> jsnum" where
  "js_div (Fin a) c = Fin (a / c)"
| "js_div NaN c = NaN"
| "js_div PInf c = (if 0 < c then PInf else NInf)"
| "js_div NInf c = (if 0 < c then NInf else PInf)"

text \<open>\<^verbatim>\<open>x || 0\<close> on a Number: NaN and zero are falsy.\<close>

definition js_or0 :: "jsnum \<Rightarrow> jsnum" where
  "js_or0 x = (if x = NaN \<or> x = Fin 0 then Fin 0 else x)"

section \<open>The surf scorer (server.js)\<close>

record reading =
  buoyId :: string
  waveHeight :: jsnum
  dominantPeriod :: jsnum
  avgPeriod :: jsnum
  waveDirection :: jsnum
  windSpeed :: jsnum
  windDirection :: jsnum
  pressure :: jsnum
  waterTemp :: jsnum
  timestamp :: string

text \<open>The three wave-height bands of \<^verbatim>\<open>calculateSurfScore\<close>, in source order, as
  (condition on the height in feet, points).\<close>

definition heightBand1 :: "jsnum \<Rightarrow> bool" where
  "heightBand1 heightFeet = (js_ge heightFeet (Fin 4) \<and> js_le heightFeet (Fin 10))"

definition heightBand2 :: "jsnum \<Rightarrow> bool" where
  "heightBand2 heightFeet = (js_ge heightFeet (Fin 2) \<and> js_lt heightFeet (Fin 4))"

definition heightBand3 :: "jsnum \<Rightarrow> bool" where
  "heightBand3 heightFeet = (js_gt heightFeet (Fin 10) \<and> js_le heightFeet (Fin 15))"

text \<open>The points the if / else-if chain on the wave height adds to the score.\<close>

definition heightPoints :: "jsnum \<Rightarrow> int" where
  "heightPoints heightFeet =
     (if heightBand1 heightFeet then 40
      else if heightBand2 heightFeet then 25
      else if heightBand3 heightFeet then 30
      else 0)"

definition periodPoints :: "jsnum \<Rightarrow> int" where
  "periodPoints p =
     (if js_ge p (Fin 12) then 30
      else if js_ge p (Fin 10) then 20
      else if js_ge p (Fin 8) then 10
      else 0)"

definition windPoints :: "jsnum \<Rightarrow> int" where
  "windPoints windMph =
     (if js_lt windMph (Fin 10) then 20
      else if js_lt windMph (Fin 15) then 10
      else - 10)"

definition avgPeriodPoints :: "jsnum \<Rightarrow> int" where
  "avgPeriodPoints a = (if js_ge a (Fin 8) then 10 else 0)"

text \<open>The bands as a table, and the number of bands whose condition a height meets.\<close>

definition heightBands :: "((jsnum \<Rightarrow> bool) \<times> int) list" where
  "heightBands = [(heightBand1, 40), (heightBand2, 25), (heightBand3, 30)]"

definition matchingHeightBands :: "jsnum \<Rightarrow> ((jsnum \<Rightarrow> bool) \<times> int) list" where
  "matchingHeightBands heightFeet = filter (\<lambda>b. fst b heightFeet) heightBands"

definition calculateSurfScore :: "reading \<Rightarrow> int" where
  "calculateSurfScore data =
     (let score = 0;
          heightFeet = js_mul (waveHeight data) (Fin 3.28084);
          score = score + heightPoints heightFeet;
          score = score + periodPoints (dominantPeriod data);
          windMph = js_mul (windSpeed data) (Fin 2.237);
          score = score + windPoints windMph;
          score = score + avgPeriodPoints (avgPeriod data)
      in max 0 (min 100 score))"

section \<open>The ski scorer (ski-data-fetcher.js)\<close>

text \<open>The object \<^verbatim>\<open>calculateSkiScore\<close> receives: snowfall in inches, temperature in
  degrees Celsius, wind speed in metres per second.\<close>

record skiData =
  data_snow24h :: jsnum
  data_snow48h :: jsnum
  data_temp :: jsnum
  data_windSpeed :: jsnum

definition snowPoints :: "jsnum \<Rightarrow> jsnum \<Rightarrow> int" where
  "snowPoints s24 s48 =
     (if js_ge s24 (Fin 12) then 40
      else if js_ge s24 (Fin 8) then 30
      else if js_ge s24 (Fin 4) then 20
      else if js_ge s48 (Fin 18) then 25
      else if js_ge s48 (Fin 12) then 15
      else 0)"

definition tempPoints :: "jsnum \<Rightarrow> int" where
  "tempPoints tempF =
     (if js_lt tempF (Fin 32) \<and> js_gt tempF (Fin 15) then 20
      else if js_lt tempF (Fin 15) then 15
      else if js_lt tempF (Fin 35) then 10
      else 0)"

definition skiWindPoints :: "jsnum \<Rightarrow> int" where
  "skiWindPoints windMph =
     (if js_lt windMph (Fin 15) then 20
      else if js_lt windMph (Fin 25) then 10
      else if js_gt windMph (Fin 40) then - 10
      else 0)"

definition calculateSkiScore :: "skiData \<Rightarrow> int" where
  "calculateSkiScore data =
     (let score = 0;
          score = score + snowPoints (data_snow24h data) (data_snow48h data);
          tempF = js_add (js_div (js_mul (data_temp data) (Fin 9)) 5) (Fin 32);
          score = score + tempPoints tempF;
          windMph = js_mul (data_windSpeed data) (Fin 2.237);
          score = score + skiWindPoints windMph;
          score = score + (if js_ge (data_snow24h data) (Fin 6) \<and> js_lt tempF (Fin 28) then 10 else 0);
          score = score + (if js_ge (data_snow48h data) (Fin 20) then 10 else 0)
      in max 0 (min 100 score))"

section \<open>The SQL scorers (database schema)\<close>














section \<open>Parsing the buoy feed (server.js)\<close>

text \<open>
  A payload is a list of characters with codes below 256. \<open>is_ws\<close> is what \<^verbatim>\<open>trim\<close>
  and the regular expression \<^verbatim>\<open>\s\<close> accept among them: tab, line feed, vertical tab,
  form feed, carriage return, space and the no-break space U+00A0. The whitespace
  characters of Unicode beyond code 255 are outside the model.
\<close>

definition is_ws :: "char \<Rightarrow> bool" where
  "is_ws c =
     (c \<in> set [CHR 0x09, CHR 0x0A, CHR 0x0B, CHR 0x0C, CHR 0x0D, CHR 0x20, CHR 0xA0])"

text \<open>\<^verbatim>\<open>text.split('\n')\<close>: one more piece than there are line feeds.\<close>

fun splitLines :: "string \<Rightarrow> string list" where
  "splitLines [] = [Nil]"
| "splitLines (c # cs) =
     (if c = CHR 0x0A then [] # splitLines cs
      else (case splitLines cs of l # ls \<Rightarrow> (c # l) # ls | [] \<Rightarrow> [c # Nil]))"

text \<open>\<^verbatim>\<open>l.split(/\s+/)\<close>: a run of whitespace separates two pieces, so leading or
  trailing whitespace gives an empty first or last piece. The flag says that the
  previous character belonged to a separator.\<close>

fun splitWs_from :: "bool \<Rightarrow> string \<Rightarrow> string list" where
  "splitWs_from inSep [] = [Nil]"
| "splitWs_from inSep (c # cs) =
     (if is_ws c then (if inSep then splitWs_from True cs else [] # splitWs_from True cs)
      else (case splitWs_from False cs of l # ls \<Rightarrow> (c # l) # ls | [] \<Rightarrow> [c # Nil]))"

definition splitWs :: "string \<Rightarrow> string list" where
  "splitWs l = splitWs_from False l"

text \<open>
  The builtin \<^verbatim>\<open>parseFloat\<close>, after the language standard: leading whitespace is
  skipped, the longest prefix that is a decimal literal (sign, \<^verbatim>\<open>Infinity\<close> or digits
  with an optional fraction and exponent) is read, and NaN is returned when there is
  none. The argument \<open>None\<close> is \<^verbatim>\<open>undefined\<close>.
\<close>

definition is_digit :: "char \<Rightarrow> bool" where
  "is_digit c = (c \<in> set ''0123456789'')"

definition digits_val :: "string \<Rightarrow> nat" where
  "digits_val ds = foldl (\<lambda>a c. 10 * a + (of_char c - 48)) 0 ds"

definition take_sign :: "string \<Rightarrow> bool \<times> string" where
  "take_sign s =
     (case s of
        [] \<Rightarrow> (False, [])
      | c # cs \<Rightarrow> if c = CHR ''-'' then (True, cs) else if c = CHR ''+'' then (False, cs) else (False, s))"

definition parse_exponent :: "string \<Rightarrow> int" where
  "parse_exponent r =
     (case r of
        [] \<Rightarrow> 0
      | c # cs \<Rightarrow>
          if c = CHR ''e'' \<or> c = CHR ''E'' then
            (let (neg, r') = take_sign cs; ds = takeWhile is_digit r'
             in if ds = [] then 0 else if neg then - int (digits_val ds) else int (digits_val ds))
          else 0)"

definition pow10 :: "int \<Rightarrow> real" where
  "pow10 e = (if 0 \<le> e then 10 ^ nat e else 1 / 10 ^ nat (- e))"

definition parseFloat :: "string option \<Rightarrow> jsnum" where
  "parseFloat v =
     (case v of
        None \<Rightarrow> NaN
      | Some str \<Rightarrow>
          (let (neg, s) = take_sign (dropWhile is_ws str)
           in if take 8 s = ''Infinity'' then (if neg then NInf else PInf)
              else
                (let ip = takeWhile is_digit s;
                     r1 = dropWhile is_digit s;
                     fp = (case r1 of [] \<Rightarrow> [] | c # cs \<Rightarrow> if c = CHR ''.'' then takeWhile is_digit cs else []);
                     r2 = (case r1 of [] \<Rightarrow> [] | c # cs \<Rightarrow> if c = CHR ''.'' then dropWhile is_digit cs else r1)
                 in if ip = [] \<and> fp = [] then NaN
                    else
                      (let m = real (digits_val ip) + real (digits_val fp) / 10 ^ length fp;
                           x = m * pow10 (parse_exponent r2)
                       in Fin (if neg then - x else x)))))"

text \<open>The lines of a payload that are not blank: \<^verbatim>\<open>filter(l => l.trim())\<close>.\<close>

definition nonBlankLines :: "string \<Rightarrow> string list" where
  "nonBlankLines text = filter (\<lambda>l. dropWhile is_ws l \<noteq> []) (splitLines text)"

text \<open>\<^verbatim>\<open>headers.forEach((header, i) => data[header] = latest[i])\<close>: a later header of
  the same name overwrites, and a header beyond the end of the data row is bound
  to \<^verbatim>\<open>undefined\<close>.\<close>

fun forEach_assign ::
  "string list \<Rightarrow> string list \<Rightarrow> (string \<Rightarrow> string option) \<Rightarrow> (string \<Rightarrow> string option)" where
  "forEach_assign [] latest data = data"
| "forEach_assign (header # headers) latest data =
     forEach_assign headers (tl latest)
       (data(header := (case latest of [] \<Rightarrow> None | v # _ \<Rightarrow> Some v)))"

text \<open>A value inside a template string.\<close>

definition js_str :: "string option \<Rightarrow> string" where
  "js_str v = (case v of None \<Rightarrow> ''undefined'' | Some s \<Rightarrow> s)"

text \<open>The object \<^verbatim>\<open>data\<close> that \<^verbatim>\<open>parseBuoyData\<close> builds from the first and the
  third non-blank line: the value under each header name, \<open>None\<close> for \<^verbatim>\<open>undefined\<close>.\<close>

definition buoyFields :: "string list \<Rightarrow> string \<Rightarrow> string option" where
  "buoyFields lines =
     (let headers = splitWs (lines ! 0);
          latest = splitWs (lines ! 2)
      in forEach_assign headers latest (\<lambda>_. None))"

text \<open>\<^verbatim>\<open>parseBuoyData\<close>; \<open>None\<close> is \<^verbatim>\<open>null\<close>. The time stamp is kept as the string
  handed to the \<^verbatim>\<open>Date\<close> constructor.\<close>

definition parseBuoyData :: "string \<Rightarrow> string \<Rightarrow> reading option" where
  "parseBuoyData text bId =
     (let lines = nonBlankLines text
      in if length lines < 3 then None
         else
           (let data = buoyFields lines
            in Some \<lparr>buoyId = bId,
                 waveHeight = js_or0 (parseFloat (data ''WVHT'')),
                 dominantPeriod = js_or0 (parseFloat (data ''DPD'')),
                 avgPeriod = js_or0 (parseFloat (data ''APD'')),
                 waveDirection = js_or0 (parseFloat (data ''MWD'')),
                 windSpeed = js_or0 (parseFloat (data ''WSPD'')),
                 windDirection = js_or0 (parseFloat (data ''WDIR'')),
                 pressure = js_or0 (parseFloat (data ''PRES'')),
                 waterTemp = js_or0 (parseFloat (data ''WTMP'')),
                 timestamp = js_str (data ''YY'') @ ''-'' @ js_str (data ''MM'') @ ''-'' @
                   js_str (data ''DD'') @ ''T'' @ js_str (data ''hh'') @ '':'' @
                   js_str (data ''mm'') @ '':00Z''\<rparr>))"

section \<open>The buoy refresh cycle and its cache (server.js)\<close>

record buoyInfo =
  name :: string
  lat :: real
  lon :: real
  region :: string

text \<open>A cache entry \<^verbatim>\<open>{...BUOYS[buoyId], ...parsed, score}\<close>.\<close>

record buoyEntry =
  info :: buoyInfo
  parsed :: reading
  score :: int

text \<open>The module state: the cache, an object keyed by buoy id, as an association list in
  key order, and the time of the last update.\<close>

record serverState =
  buoyCache :: "(string \<times> buoyEntry) list"
  lastUpdate :: "real option"

text \<open>
  The loop of \<^verbatim>\<open>fetchAllBuoys\<close> over the entries of \<^verbatim>\<open>BUOYS\<close>. The network is a
  function from the buoy id to the body of the response, \<open>None\<close> when the request or
  the reading of the body throws; the \<^verbatim>\<open>catch\<close> then logs and leaves \<open>results\<close> as
  it is.
\<close>

fun fetchLoop ::
  "(string \<Rightarrow> string option) \<Rightarrow> (string \<times> buoyInfo) list \<Rightarrow> (string \<times> buoyEntry) list
     \<Rightarrow> (string \<times> buoyEntry) list" where
  "fetchLoop net [] results = results"
| "fetchLoop net ((bId, binfo) # rest) results =
     fetchLoop net rest
       (case net bId of
          None \<Rightarrow> results
        | Some text \<Rightarrow>
            (case parseBuoyData text bId of
               None \<Rightarrow> results
             | Some p \<Rightarrow>
                 AList.update bId \<lparr>info = binfo, parsed = p, score = calculateSurfScore p\<rparr> results))"

definition fetchAllBuoys ::
  "(string \<times> buoyInfo) list \<Rightarrow> (string \<Rightarrow> string option) \<Rightarrow> real \<Rightarrow> serverState \<Rightarrow> serverState" where
  "fetchAllBuoys BUOYS net now st =
     (let results = fetchLoop net BUOYS []
      in st\<lparr>buoyCache := results, lastUpdate := Some now\<rparr>)"

section \<open>The strikes route (server.js)\<close>

record strike =
  s_type :: string
  s_id :: string
  s_name :: string
  s_lat :: real
  s_lon :: real
  s_score :: int
  s_waveHeight :: jsnum
  s_period :: jsnum
  s_wind :: jsnum
  s_timestamp :: string

definition toStrike :: "buoyEntry \<Rightarrow> strike" where
  "toStrike buoy =
     \<lparr>s_type = ''surf'', s_id = buoyId (parsed buoy), s_name = name (info buoy),
      s_lat = lat (info buoy), s_lon = lon (info buoy), s_score = score buoy,
      s_waveHeight = waveHeight (parsed buoy), s_period = dominantPeriod (parsed buoy),
      s_wind = windSpeed (parsed buoy), s_timestamp = timestamp (parsed buoy)\<rparr>"

text \<open>
  The handler of \<^verbatim>\<open>GET /api/strikes\<close>: the entries of the cache with a score of at
  least 70, in cache order, then sorted with the comparator \<^verbatim>\<open>b.score - a.score\<close>.
  The sort of the language is stable, so it is the stable insertion sort on the negated
  score.
\<close>

definition apiStrikes :: "serverState \<Rightarrow> strike list \<times> real option" where
  "apiStrikes st =
     (let strikes = map toStrike (filter (\<lambda>buoy. score buoy \<ge> 70) (map snd (buoyCache st)))
      in (sort_key (\<lambda>s. - s_score s) strikes, lastUpdate st))"

section \<open>Fetching ski data (ski-data-fetcher.js)\<close>

record resort =
  r_id :: string
  r_name :: string
  r_lat :: real
  r_lon :: real
  country :: string

text \<open>An entry of a forecast list, with the properties the code reads: \<^verbatim>\<open>dt\<close>,
  \<^verbatim>\<open>snow['3h']\<close>, \<^verbatim>\<open>main.temp\<close> and \<^verbatim>\<open>wind.speed\<close>; \<open>None\<close> is \<^verbatim>\<open>undefined\<close>.\<close>

record forecastItem =
  item_dt :: jsnum
  item_snow3h :: "jsnum option"
  item_main_temp :: "jsnum option"
  item_wind_speed :: "jsnum option"

record owCurrent =
  cur_temp :: "jsnum option"
  cur_windSpeed :: "jsnum option"

text \<open>The object an adapter returns. The grid arrays \<^verbatim>\<open>snowAmount\<close>,
  \<^verbatim>\<open>temperature\<close> and \<^verbatim>\<open>windSpeed\<close> of the NOAA object and the display fields of
  \<^verbatim>\<open>current\<close> are read by no scoring code and are left out.\<close>

record weather =
  source :: string
  snow24h :: "jsnum option"
  snow48h :: "jsnum option"
  current :: "owCurrent option"
  forecast :: "forecastItem list"

text \<open>What the network gives an adapter: \<open>NoaaFails\<close> and \<open>OwFails\<close> stand for a
  response that is not ok or any exception on the way, which the adapter catches.\<close>

datatype noaa_reply = NoaaFails | NoaaOk "forecastItem list"

datatype ow_reply = OwFails | OwOk owCurrent "forecastItem list"

definition fetchNOAAWeather :: "noaa_reply \<Rightarrow> weather option" where
  "fetchNOAAWeather reply =
     (case reply of
        NoaaFails \<Rightarrow> None
      | NoaaOk periods \<Rightarrow>
          Some \<lparr>source = ''noaa'', snow24h = None, snow48h = None, current = None,
                forecast = take 6 periods\<rparr>)"

definition js_sub :: "jsnum \<Rightarrow> jsnum \<Rightarrow> jsnum" where
  "js_sub a b = js_add a (js_mul b (Fin (- 1)))"

text \<open>One round of the \<^verbatim>\<open>forEach\<close> that accumulates the snow of the next 24 and 48 hours.\<close>

definition snowStep :: "real \<Rightarrow> jsnum \<times> jsnum \<Rightarrow> forecastItem \<Rightarrow> jsnum \<times> jsnum" where
  "snowStep now acc item =
     (case item_snow3h item of
        None \<Rightarrow> acc
      | Some snowMm \<Rightarrow>
          if snowMm = NaN \<or> snowMm = Fin 0 then acc
          else
            (let hours = js_div (js_sub (item_dt item) (Fin now)) 3600
             in (if js_le hours (Fin 24) then js_add (fst acc) snowMm else fst acc,
                 if js_le hours (Fin 48) then js_add (snd acc) snowMm else snd acc)))"

definition fetchOpenWeather :: "string option \<Rightarrow> real \<Rightarrow> ow_reply \<Rightarrow> weather option" where
  "fetchOpenWeather key now reply =
     (if key = None \<or> key = Some [] then None
      else
        (case reply of
           OwFails \<Rightarrow> None
         | OwOk cur items \<Rightarrow>
             (let acc = foldl (snowStep now) (Fin 0, Fin 0) items
              in Some \<lparr>source = ''openweather'',
                       snow24h = Some (js_div (fst acc) 25.4),
                       snow48h = Some (js_div (snd acc) 25.4),
                       current = Some cur,
                       forecast = take 8 items\<rparr>)))"

record skiEnv =
  OPENWEATHER_KEY :: "string option"
  clock :: real
  noaaNet :: "real \<Rightarrow> real \<Rightarrow> noaa_reply"
  owNet :: "real \<Rightarrow> real \<Rightarrow> ow_reply"

datatype adapter = NOAA | OpenWeather

text \<open>
  The fallback of \<^verbatim>\<open>fetchAllSkiData\<close> for one resort: NOAA first for a resort in the
  US and OpenWeather when NOAA returned \<^verbatim>\<open>null\<close>, OpenWeather alone elsewhere. The
  second component lists the adapters that were called, in call order.
\<close>

definition fetchResortData :: "skiEnv \<Rightarrow> resort \<Rightarrow> weather option \<times> adapter list" where
  "fetchResortData env r =
     (if country r = ''US'' then
        (let data = fetchNOAAWeather (noaaNet env (r_lat r) (r_lon r))
         in if data = None
            then (fetchOpenWeather (OPENWEATHER_KEY env) (clock env) (owNet env (r_lat r) (r_lon r)),
                  [NOAA, OpenWeather])
            else (data, [NOAA]))
      else (fetchOpenWeather (OPENWEATHER_KEY env) (clock env) (owNet env (r_lat r) (r_lon r)),
            [OpenWeather]))"

text \<open>\<^verbatim>\<open>a || b\<close> and \<^verbatim>\<open>a || 0\<close> on values that may be \<^verbatim>\<open>undefined\<close>.\<close>

definition truthy :: "jsnum option \<Rightarrow> bool" where
  "truthy v = (case v of None \<Rightarrow> False | Some x \<Rightarrow> x \<noteq> NaN \<and> x \<noteq> Fin 0)"

definition js_or :: "jsnum option \<Rightarrow> jsnum option \<Rightarrow> jsnum option" where
  "js_or a b = (if truthy a then a else b)"

definition js_opt_or0 :: "jsnum option \<Rightarrow> jsnum" where
  "js_opt_or0 v = (case v of None \<Rightarrow> Fin 0 | Some x \<Rightarrow> js_or0 x)"

text \<open>The object literal \<^verbatim>\<open>fetchAllSkiData\<close> hands to the scorer.\<close>

definition skiInput :: "weather \<Rightarrow> skiData" where
  "skiInput data =
     \<lparr>data_snow24h = js_opt_or0 (snow24h data),
      data_snow48h = js_opt_or0 (snow48h data),
      data_temp = js_opt_or0
        (js_or (case current data of None \<Rightarrow> None | Some c \<Rightarrow> cur_temp c)
               (case forecast data of [] \<Rightarrow> None | f # _ \<Rightarrow> item_main_temp f)),
      data_windSpeed = js_opt_or0
        (js_or (case current data of None \<Rightarrow> None | Some c \<Rightarrow> cur_windSpeed c)
               (case forecast data of [] \<Rightarrow> None | f # _ \<Rightarrow> item_wind_speed f))\<rparr>"

record skiResult =
  res_resort :: resort
  res_weather :: weather
  res_score :: int
  isStrike :: bool

fun skiLoop :: "skiEnv \<Rightarrow> resort list \<Rightarrow> skiResult list \<Rightarrow> skiResult list" where
  "skiLoop env [] results = results"
| "skiLoop env (r # rest) results =
     skiLoop env rest
       (case fst (fetchResortData env r) of
          None \<Rightarrow> results
        | Some data \<Rightarrow>
            (let sc = calculateSkiScore (skiInput data)
             in results @ [\<lparr>res_resort = r, res_weather = data, res_score = sc,
                            isStrike = (sc \<ge> 70)\<rparr>]))"

definition fetchAllSkiData :: "skiEnv \<Rightarrow> resort list \<Rightarrow> skiResult list" where
  "fetchAllSkiData env SKI_RESORTS = skiLoop env SKI_RESORTS []"

text \<open>\<^verbatim>\<open>findStrikes\<close>; of the mapped object the name, the two coordinates of the
  location string and the score are kept, the formatted display strings are left out.\<close>

record skiStrike =
  fs_name :: string
  fs_lat :: real
  fs_lon :: real
  fs_score :: int

definition toSkiStrike :: "skiResult \<Rightarrow> skiStrike" where
  "toSkiStrike r =
     \<lparr>fs_name = r_name (res_resort r), fs_lat = r_lat (res_resort r),
      fs_lon = r_lon (res_resort r), fs_score = res_score r\<rparr>"

definition findStrikes :: "skiResult list \<Rightarrow> skiStrike list" where
  "findStrikes resortData =
     map toSkiStrike (sort_key (\<lambda>r. - res_score r) (filter isStrike resortData))"

text \<open>
  The fallback as a resolver over a preference order, in the words of the specification:
  the adapters are tried in order and the first one that returns a reading wins. The
  second component lists the adapters tried.
\<close>

fun resolve :: "(adapter \<Rightarrow> weather option) \<Rightarrow> adapter list \<Rightarrow> weather option \<times> adapter list" where
  "resolve run [] = (None, [])"
| "resolve run (a # rest) =
     (case run a of
        Some d \<Rightarrow> (Some d, [a])
      | None \<Rightarrow> (fst (resolve run rest), a # snd (resolve run rest)))"

definition preferenceOrder :: "resort \<Rightarrow> adapter list" where
  "preferenceOrder r = (if country r = ''US'' then [NOAA, OpenWeather] else [OpenWeather])"

definition runAdapter :: "skiEnv \<Rightarrow> resort \<Rightarrow> adapter \<Rightarrow> weather option" where
  "runAdapter env r a =
     (case a of
        NOAA \<Rightarrow> fetchNOAAWeather (noaaNet env (r_lat r) (r_lon r))
      | OpenWeather \<Rightarrow>
          fetchOpenWeather (OPENWEATHER_KEY env) (clock env) (owNet env (r_lat r) (r_lon r)))"

section \<open>The strike detector\<close>

text \<open>
  The sources contain no strike detector: they compute instantaneous scores and hold, of
  the strike life cycle, only the table \<^verbatim>\<open>strikes\<close> of the database schema, which
  declares no uniqueness constraint on open rows. The detector below follows sections 3
  and 4.6 of the specification.
\<close>

text \<open>Modelled from the spec: the strike event of section 3 (the detector is missing from
  the sources), with \<open>endedAt = None\<close> while the event is open.\<close>

record strikeEvent =
  locationId :: string
  startedAt :: int
  endedAt :: "int option"
  peakScore :: int
  peakAt :: int

text \<open>Modelled from the spec: the state of the missing detector, as the list of all
  events, open and closed, with the time of the last successful reading per location. A
  location is Active when the list holds an open event for it and NoStrike otherwise.\<close>

record detector =
  events :: "strikeEvent list"
  lastSeen :: "string \<Rightarrow> int"

text \<open>Modelled from the spec: the strike threshold of the missing detector.\<close>

definition threshold :: int where
  "threshold = 70"

text \<open>Modelled from the spec: an event of the location that is open, for the missing
  detector.\<close>

definition openFor :: "string \<Rightarrow> strikeEvent \<Rightarrow> bool" where
  "openFor loc e = (locationId e = loc \<and> endedAt e = None)"

text \<open>Modelled from the spec: the open events of a location in a state of the missing
  detector.\<close>

definition openEvents :: "string \<Rightarrow> detector \<Rightarrow> strikeEvent list" where
  "openEvents loc d = filter (openFor loc) (events d)"

text \<open>Modelled from the spec: the missing detector sets \<open>endedAt\<close> on the open events of
  a location.\<close>

definition closeFor :: "string \<Rightarrow> int \<Rightarrow> strikeEvent list \<Rightarrow> strikeEvent list" where
  "closeFor loc now evs = map (\<lambda>e. if openFor loc e then e\<lparr>endedAt := Some now\<rparr> else e) evs"

text \<open>Modelled from the spec: the transitions of the missing detector for a successful
  score of a location at time \<open>now\<close>. From NoStrike a score at or above the threshold
  creates an event; in Active it raises the peak when it exceeds it and changes nothing
  otherwise; a score below the threshold closes the event.\<close>

definition onScore :: "string \<Rightarrow> int \<Rightarrow> int \<Rightarrow> detector \<Rightarrow> detector" where
  "onScore loc sc now d =
     (let evs =
        (if sc \<ge> threshold then
           (if filter (openFor loc) (events d) = []
            then events d @
              [\<lparr>locationId = loc, startedAt = now, endedAt = None, peakScore = sc, peakAt = now\<rparr>]
            else map (\<lambda>e. if openFor loc e \<and> sc > peakScore e
                           then e\<lparr>peakScore := sc, peakAt := now\<rparr> else e) (events d))
         else closeFor loc now (events d))
      in \<lparr>events = evs, lastSeen = (lastSeen d)(loc := now)\<rparr>)"

text \<open>Modelled from the spec: the transition of the missing detector for a cycle without
  a reading of the location. The state is kept, unless the silence has lasted longer
  than the configured maximum; then the open event is closed.\<close>

definition onSilence :: "int \<Rightarrow> string \<Rightarrow> int \<Rightarrow> detector \<Rightarrow> detector" where
  "onSilence maxSilence loc now d =
     (if now - lastSeen d loc > maxSilence
      then d\<lparr>events := closeFor loc now (events d)\<rparr>
      else d)"

text \<open>Modelled from the spec: what the missing detector is told per location and cycle, a
  score at a time or the absence of a reading at a time.\<close>

datatype observation = Scored string int int | NoData string int

text \<open>Modelled from the spec: one step of the missing detector.\<close>

fun detect :: "int \<Rightarrow> detector \<Rightarrow> observation \<Rightarrow> detector" where
  "detect maxSilence d (Scored loc sc now) = onScore loc sc now d"
| "detect maxSilence d (NoData loc now) = onSilence maxSilence loc now d"

text \<open>Modelled from the spec: the missing detector starts without events.\<close>

definition initialDetector :: detector where
  "initialDetector = \<lparr>events = [], lastSeen = (\<lambda>_. 0)\<rparr>"

text \<open>Modelled from the spec: a run of the missing detector over a sequence of
  observations.\<close>

definition runDetector :: "int \<Rightarrow> observation list \<Rightarrow> detector" where
  "runDetector maxSilence obs = foldl (detect maxSilence) initialDetector obs"

section \<open>Example inputs\<close>

text \<open>The reading of the end-to-end scenario: 2.0 m of swell, a dominant period of 14 s,
  an average period of 10 s and 2 m/s of wind.\<close>

definition readingB1 :: reading where
  "readingB1 =
     \<lparr>buoyId = ''B1'', waveHeight = Fin 2.0, dominantPeriod = Fin 14, avgPeriod = Fin 10,
      waveDirection = Fin 275, windSpeed = Fin 2, windDirection = Fin 270,
      pressure = Fin 1015.2, waterTemp = Fin 14.8, timestamp = ''2024-01-15T18:50:00Z''\<rparr>"

definition infoB1 :: buoyInfo where
  "infoB1 = \<lparr>name = ''Santa Barbara'', lat = 34.274, lon = - 119.863, region = ''Southern CA''\<rparr>"

definition alta :: resort where
  "alta = \<lparr>r_id = ''alta'', r_name = ''Alta'', r_lat = 40.588, r_lon = - 111.638, country = ''US''\<rparr>"

text \<open>An environment in which NOAA answers with an empty forecast and no OpenWeather key
  is configured.\<close>

definition noaaOnlyEnv :: skiEnv where
  "noaaOnlyEnv =
     \<lparr>OPENWEATHER_KEY = None, clock = 0, noaaNet = (\<lambda>_ _. NoaaOk []), owNet = (\<lambda>_ _. OwFails)\<rparr>"

definition noaaWeather :: weather where
  "noaaWeather = \<lparr>source = ''noaa'', snow24h = None, snow48h = None, current = None, forecast = []\<rparr>"

text \<open>A cache that holds the reading of B1, and a payload whose header is followed by a
  units row and a data row in which the station reports every metric as missing
  (\<^verbatim>\<open>MM\<close>).\<close>

definition entryB1 :: buoyEntry where
  "entryB1 = \<lparr>info = infoB1, parsed = readingB1, score = 100\<rparr>"

definition stateB1 :: serverState where
  "stateB1 = \<lparr>buoyCache = [(''B1'', entryB1)], lastUpdate = Some 0\<rparr>"

definition missingPayload :: string where
  "missingPayload =
     ''#YY MM DD hh mm WDIR WSPD WVHT DPD APD MWD PRES WTMP'' @ [CHR 0x0A] @
     ''#yr mo dy hr mn degT m/s m sec sec degT hPa degC'' @ [CHR 0x0A] @
     ''2024 01 15 18 50 MM MM MM MM MM MM MM MM'' @ [CHR 0x0A]"

definition missingReading :: reading where
  "missingReading =
     \<lparr>buoyId = ''B1'', waveHeight = Fin 0, dominantPeriod = Fin 0, avgPeriod = Fin 0,
      waveDirection = Fin 0, windSpeed = Fin 0, windDirection = Fin 0,
      pressure = Fin 0, waterTemp = Fin 0, timestamp = ''undefined-01-15T18:50:00Z''\<rparr>"

text \<open>An environment in which NOAA fails and OpenWeather answers.\<close>

definition fallbackEnv :: skiEnv where
  "fallbackEnv =
     \<lparr>OPENWEATHER_KEY = Some ''k'', clock = 0, noaaNet = (\<lambda>_ _. NoaaFails),
      owNet = (\<lambda>_ _. OwOk \<lparr>cur_temp = Some (Fin (- 5)), cur_windSpeed = Some (Fin 3)\<rparr>
        [\<lparr>item_dt = Fin 3600, item_snow3h = Some (Fin 254), item_main_temp = Some (Fin (- 6)),
          item_wind_speed = Some (Fin 4)\<rparr>])\<rparr>"

definition owWeather :: weather where
  "owWeather =
     \<lparr>source = ''openweather'', snow24h = Some (Fin 10), snow48h = Some (Fin 10),
      current = Some \<lparr>cur_temp = Some (Fin (- 5)), cur_windSpeed = Some (Fin 3)\<rparr>,
      forecast = [\<lparr>item_dt = Fin 3600, item_snow3h = Some (Fin 254),
        item_main_temp = Some (Fin (- 6)), item_wind_speed = Some (Fin 4)\<rparr>]\<rparr>"

text \<open>A resort outside the US, and an environment in which NOAA answers with an empty
  forecast and OpenWeather reports 254 mm of snow within the hour.\<close>

definition whistler :: resort where
  "whistler = \<lparr>r_id = ''whistler'', r_name = ''Whistler Blackcomb'', r_lat = 50.116,
     r_lon = - 122.949, country = ''CA''\<rparr>"

definition mixedEnv :: skiEnv where
  "mixedEnv =
     \<lparr>OPENWEATHER_KEY = Some ''k'', clock = 0, noaaNet = (\<lambda>_ _. NoaaOk []),
      owNet = (\<lambda>_ _. OwOk \<lparr>cur_temp = Some (Fin (- 5)), cur_windSpeed = Some (Fin 3)\<rparr>
        [\<lparr>item_dt = Fin 3600, item_snow3h = Some (Fin 254), item_main_temp = Some (Fin (- 6)),
          item_wind_speed = Some (Fin 4)\<rparr>])\<rparr>"

text \<open>A payload with the metrics of the end-to-end scenario, the reading it parses to (the
  header names the year column \<^verbatim>\<open>#YY\<close>, so the year of the time stamp is undefined),
  and a network that serves it for B1 and the payload of missing metrics for any other
  buoy.\<close>

definition strikePayload :: string where
  "strikePayload =
     ''#YY MM DD hh mm WDIR WSPD WVHT DPD APD MWD PRES WTMP'' @ [CHR 0x0A] @
     ''#yr mo dy hr mn degT m/s m sec sec degT hPa degC'' @ [CHR 0x0A] @
     ''2024 01 15 18 50 270 2.0 2.0 14 10.0 275 1015.2 14.8'' @ [CHR 0x0A]"

definition parsedB1 :: reading where
  "parsedB1 = readingB1\<lparr>timestamp := ''undefined-01-15T18:50:00Z''\<rparr>"

definition infoB2 :: buoyInfo where
  "infoB2 = \<lparr>name = ''San Pedro'', lat = 33.618, lon = - 118.317, region = ''Southern CA''\<rparr>"

definition twoBuoys :: "(string \<times> buoyInfo) list" where
  "twoBuoys = [(''B1'', infoB1), (''B2'', infoB2)]"

definition twoBuoyNet :: "string \<Rightarrow> string option" where
  "twoBuoyNet k = (if k = ''B1'' then Some strikePayload else Some missingPayload)"

text \<open>Scores of 50, 80 and 95 for one location.\<close>

definition risingRun :: "observation list" where
  "risingRun = [Scored ''B1'' 50 1, Scored ''B1'' 80 2, Scored ''B1'' 95 3]"

section \<open>Comparisons and the two scorers\<close>

lemmas js_cmp_defs = js_ge_def js_le_def js_gt_def


lemmas surf_points_defs = heightPoints_def periodPoints_def windPoints_def avgPeriodPoints_def
  heightBand1_def heightBand2_def heightBand3_def

text \<open>
  C1. Whatever the reading holds (finite values in or out of range, infinities, NaN),
  \<^verbatim>\<open>calculateSurfScore\<close> and \<^verbatim>\<open>calculateSkiScore\<close> return an integer between 0
  and 100: both end in \<^verbatim>\<open>Math.max(0, Math.min(100, score))\<close> on an integer sum.
\<close>

theorem C1_scores_in_range:
  "0 \<le> calculateSurfScore data \<and> calculateSurfScore data \<le> 100 \<and>
   0 \<le> calculateSkiScore sdata \<and> calculateSkiScore sdata \<le> 100"
  by (simp add: calculateSurfScore_def calculateSkiScore_def Let_def)

text \<open>
  C4 as stated fails: a wave of 0.5 m (1.64 ft) lies below every band, so no height band
  contributes and the height adds nothing to the score.
\<close>

theorem C4_no_band_counterexample:
  "length (matchingHeightBands (js_mul (Fin 0.5) (Fin 3.28084))) \<noteq> 1 \<and>
   heightPoints (js_mul (Fin 0.5) (Fin 3.28084)) = 0"
  by (simp add: matchingHeightBands_def heightBands_def surf_points_defs js_cmp_defs)

text \<open>
  C4, amended. For every wave height, at most one height band matches, never two; the
  points the if / else-if chain adds are the points of the matching bands, so the
  first-match chain counts nothing twice and drops nothing; and exactly one band matches
  precisely for heights from 2 ft to 15 ft. Outside that range (and for NaN) no band
  contributes.
\<close>

theorem C4_at_most_one_height_band:
  "length (matchingHeightBands heightFeet) \<le> 1 \<and>
   heightPoints heightFeet = sum_list (map snd (matchingHeightBands heightFeet)) \<and>
   (length (matchingHeightBands heightFeet) = 1) =
     (js_ge heightFeet (Fin 2) \<and> js_le heightFeet (Fin 15))"
  by (cases heightFeet)
    (auto simp add: matchingHeightBands_def heightBands_def surf_points_defs js_cmp_defs)












text \<open>
  C6. The reading with a wave height of 2.0 m, a dominant period of 14 s, an average
  period of 10 s and a wind speed of 2 m/s scores 40 for the height, 30 for the period,
  20 for the wind and 10 for the average period, 100 in all; the score reaches the
  strike threshold 70, and the strikes route lists the location with that score.
\<close>

theorem C6_scenario_B1:
  "heightPoints (js_mul (waveHeight readingB1) (Fin 3.28084)) = 40 \<and>
   periodPoints (dominantPeriod readingB1) = 30 \<and>
   windPoints (js_mul (windSpeed readingB1) (Fin 2.237)) = 20 \<and>
   avgPeriodPoints (avgPeriod readingB1) = 10 \<and>
   calculateSurfScore readingB1 = 100 \<and>
   calculateSurfScore readingB1 \<ge> 70 \<and>
   map (\<lambda>s. (s_id s, s_score s))
     (fst (apiStrikes
        \<lparr>buoyCache = [(''B1'', \<lparr>info = infoB1, parsed = readingB1,
                                score = calculateSurfScore readingB1\<rparr>)],
         lastUpdate = None\<rparr>)) = [(''B1'', 100)]"
  by (simp add: readingB1_def calculateSurfScore_def Let_def surf_points_defs js_cmp_defs
      apiStrikes_def toStrike_def)

section \<open>Results sourced from NOAA\<close>

lemma tempPoints_le: "tempPoints t \<le> 20"
  by (simp add: tempPoints_def)

lemma skiWindPoints_le: "skiWindPoints w \<le> 20"
  by (simp add: skiWindPoints_def)

lemma snowPoints_zero: "snowPoints (Fin 0) (Fin 0) = 0"
  by (simp add: snowPoints_def js_cmp_defs)

lemma no_snow_score:
  assumes "snow24h d = None" "snow48h d = None"
  shows "calculateSkiScore (skiInput d) \<le> 40"
proof -
  have s: "data_snow24h (skiInput d) = Fin 0" "data_snow48h (skiInput d) = Fin 0"
    using assms by (simp_all add: skiInput_def js_opt_or0_def)
  have "calculateSkiScore (skiInput d) =
      max 0 (min 100
        (tempPoints (js_add (js_div (js_mul (data_temp (skiInput d)) (Fin 9)) 5) (Fin 32))
         + skiWindPoints (js_mul (data_windSpeed (skiInput d)) (Fin 2.237))))"
    by (simp add: calculateSkiScore_def Let_def s snowPoints_zero js_cmp_defs)
  also have "\<dots> \<le> 40"
    using tempPoints_le [of "js_add (js_div (js_mul (data_temp (skiInput d)) (Fin 9)) 5) (Fin 32)"]
      skiWindPoints_le [of "js_mul (data_windSpeed (skiInput d)) (Fin 2.237)"]
    by simp
  finally show ?thesis .
qed

lemma fetchNOAAWeather_no_snow:
  "fetchNOAAWeather reply = Some d \<Longrightarrow>
     source d = ''noaa'' \<and> snow24h d = None \<and> snow48h d = None"
  by (auto simp add: fetchNOAAWeather_def split: noaa_reply.splits)

lemma fetchOpenWeather_source:
  "fetchOpenWeather key now reply = Some d \<Longrightarrow> source d = ''openweather''"
  by (auto simp add: fetchOpenWeather_def Let_def split: if_splits ow_reply.splits)

lemma noaa_sourced_no_snow:
  assumes "fst (fetchResortData env r) = Some d" "source d = ''noaa''"
  shows "snow24h d = None \<and> snow48h d = None"
  using assms
  by (auto simp add: fetchResortData_def Let_def split: if_splits
      dest: fetchNOAAWeather_no_snow fetchOpenWeather_source)

text \<open>Every result of the loop was already there or was built from the data the fallback
  returned for one of the resorts.\<close>

lemma skiLoop_mem:
  "res \<in> set (skiLoop env rs acc) \<Longrightarrow>
     res \<in> set acc \<or>
     (\<exists>r \<in> set rs. \<exists>d. fst (fetchResortData env r) = Some d \<and>
        res = \<lparr>res_resort = r, res_weather = d, res_score = calculateSkiScore (skiInput d),
               isStrike = (calculateSkiScore (skiInput d) \<ge> 70)\<rparr>)"
proof (induction rs arbitrary: acc)
  case Nil
  then show ?case by simp
next
  case (Cons r rs)
  show ?case
  proof (cases "fst (fetchResortData env r)")
    case None
    with Cons.prems have "res \<in> set (skiLoop env rs acc)" by simp
    from Cons.IH [OF this] show ?thesis by auto
  next
    case (Some d)
    let ?new = "\<lparr>res_resort = r, res_weather = d, res_score = calculateSkiScore (skiInput d),
               isStrike = (calculateSkiScore (skiInput d) \<ge> 70)\<rparr>"
    from Cons.prems Some have "res \<in> set (skiLoop env rs (acc @ [?new]))"
      by (simp add: Let_def)
    from Cons.IH [OF this] Some show ?thesis by auto
  qed
qed

text \<open>
  C10. Every result of \<^verbatim>\<open>fetchAllSkiData\<close> whose weather object comes from the NOAA
  adapter is scored with both snow inputs defaulted to 0, so its score is at most 40
  (20 for the temperature and 20 for the wind at best) and its \<^verbatim>\<open>isStrike\<close> flag is
  false.
\<close>

theorem C10_noaa_results_never_strike:
  assumes "res \<in> set (fetchAllSkiData env resorts)"
    and "source (res_weather res) = ''noaa''"
  shows "data_snow24h (skiInput (res_weather res)) = Fin 0
    \<and> data_snow48h (skiInput (res_weather res)) = Fin 0
    \<and> res_score res = calculateSkiScore (skiInput (res_weather res))
    \<and> res_score res \<le> 40 \<and> \<not> isStrike res"
proof -
  from assms(1) obtain r d where rd: "fst (fetchResortData env r) = Some d"
    and res: "res = \<lparr>res_resort = r, res_weather = d, res_score = calculateSkiScore (skiInput d),
               isStrike = (calculateSkiScore (skiInput d) \<ge> 70)\<rparr>"
    using skiLoop_mem [of res env resorts "[]"] by (auto simp add: fetchAllSkiData_def)
  from assms(2) res have "source d = ''noaa''" by simp
  with rd have ns: "snow24h d = None \<and> snow48h d = None" by (rule noaa_sourced_no_snow)
  then have le: "calculateSkiScore (skiInput d) \<le> 40" by (simp add: no_snow_score)
  from ns have "data_snow24h (skiInput d) = Fin 0 \<and> data_snow48h (skiInput d) = Fin 0"
    by (simp add: skiInput_def js_opt_or0_def)
  with le res show ?thesis by simp
qed

lemma noaa_example_run:
  "fetchAllSkiData noaaOnlyEnv [alta] =
     [\<lparr>res_resort = alta, res_weather = noaaWeather, res_score = 30, isStrike = False\<rparr>]"
  by (simp add: fetchAllSkiData_def fetchResortData_def fetchNOAAWeather_def Let_def
      noaaOnlyEnv_def alta_def noaaWeather_def skiInput_def js_opt_or0_def js_or_def
      truthy_def js_or0_def calculateSkiScore_def snowPoints_def tempPoints_def
      skiWindPoints_def js_cmp_defs)

theorem C10_noaa_results_witness:
  "\<lparr>res_resort = alta, res_weather = noaaWeather, res_score = 30, isStrike = False\<rparr>
     \<in> set (fetchAllSkiData noaaOnlyEnv [alta]) \<and>
   source noaaWeather = ''noaa'' \<and>
   (30::int) \<le> 40"
proof -
  let ?res = "\<lparr>res_resort = alta, res_weather = noaaWeather, res_score = 30, isStrike = False\<rparr>"
  have mem: "?res \<in> set (fetchAllSkiData noaaOnlyEnv [alta])"
    by (simp add: noaa_example_run)
  have src: "source (res_weather ?res) = ''noaa''"
    by (simp add: noaaWeather_def)
  from C10_noaa_results_never_strike [OF mem src] mem src show ?thesis by simp
qed

section \<open>The refresh cycle and the cache\<close>

lemmas parse_defs = parseBuoyData_def buoyFields_def nonBlankLines_def splitWs_def is_ws_def
  js_str_def Let_def parseFloat_def take_sign_def is_digit_def digits_val_def pow10_def
  parse_exponent_def js_or0_def

text \<open>The payload with every metric missing parses to a reading of zeros.\<close>

lemma missing_parse: "parseBuoyData missingPayload ''B1'' = Some missingReading"
  by (simp add: missingPayload_def missingReading_def parse_defs)


text \<open>A buoy whose request throws, whose payload is rejected or that is not listed
  leaves its key of \<open>results\<close> as it was.\<close>

lemma fetchLoop_skip:
  assumes "net k = None \<or> (\<exists>body. net k = Some body \<and> parseBuoyData body k = None) \<or> k \<notin> fst ` set B"
  shows "map_of (fetchLoop net B acc) k = map_of acc k"
  using assms
proof (induction B arbitrary: acc)
  case Nil
  then show ?case by simp
next
  case (Cons b B)
  obtain bId binfo where b: "b = (bId, binfo)" by (cases b)
  let ?acc = "(case net bId of None \<Rightarrow> acc
     | Some body \<Rightarrow> (case parseBuoyData body bId of None \<Rightarrow> acc
        | Some p \<Rightarrow> AList.update bId \<lparr>info = binfo, parsed = p, score = calculateSurfScore p\<rparr> acc))"
  have step: "map_of ?acc k = map_of acc k"
    using Cons.prems b by (auto simp add: update_conv' split: option.splits)
  have "net k = None \<or> (\<exists>body. net k = Some body \<and> parseBuoyData body k = None) \<or> k \<notin> fst ` set B"
    using Cons.prems by auto
  from Cons.IH [OF this, of ?acc] step show ?case by (simp add: b)
qed

text \<open>A listed buoy whose payload parses is stored with its score.\<close>

lemma fetchLoop_stored:
  assumes "distinct (map fst B)" "(k, binfo) \<in> set B" "net k = Some body" "parseBuoyData body k = Some p"
  shows "map_of (fetchLoop net B acc) k = Some \<lparr>info = binfo, parsed = p, score = calculateSurfScore p\<rparr>"
  using assms(1,2)
proof (induction B arbitrary: acc)
  case Nil
  then show ?case by simp
next
  case (Cons b B)
  obtain bId bi where b: "b = (bId, bi)" by (cases b)
  show ?case
  proof (cases "bId = k")
    case True
    with Cons.prems b have bi: "bi = binfo" and notin: "k \<notin> fst ` set B"
      by (auto simp add: image_iff)
    have "map_of (fetchLoop net B (AList.update k \<lparr>info = binfo, parsed = p, score = calculateSurfScore p\<rparr> acc)) k
       = map_of (AList.update k \<lparr>info = binfo, parsed = p, score = calculateSurfScore p\<rparr> acc) k"
      using notin by (intro fetchLoop_skip) simp
    then show ?thesis using True b bi assms(3,4) by (simp add: update_conv')
  next
    case False
    with Cons.prems b have "distinct (map fst B)" "(k, binfo) \<in> set B" by auto
    from Cons.IH [OF this] show ?thesis by (simp add: b)
  qed
qed

text \<open>Every entry of \<open>results\<close> was there before or comes from a payload fetched and
  parsed in this run of the loop.\<close>

lemma fetchLoop_origin:
  assumes "map_of (fetchLoop net B acc) k = Some e"
  shows "map_of acc k = Some e \<or>
    (\<exists>body. net k = Some body \<and> parseBuoyData body k = Some (parsed e) \<and> k \<in> fst ` set B
       \<and> score e = calculateSurfScore (parsed e))"
  using assms
proof (induction B arbitrary: acc)
  case Nil
  then show ?case by simp
next
  case (Cons b B)
  obtain bId binfo where b: "b = (bId, binfo)" by (cases b)
  let ?acc = "(case net bId of None \<Rightarrow> acc
     | Some body \<Rightarrow> (case parseBuoyData body bId of None \<Rightarrow> acc
        | Some p \<Rightarrow> AList.update bId \<lparr>info = binfo, parsed = p, score = calculateSurfScore p\<rparr> acc))"
  from Cons.prems b have "map_of (fetchLoop net B ?acc) k = Some e" by simp
  from Cons.IH [OF this] consider (old) "map_of ?acc k = Some e"
    | (new) "\<exists>body. net k = Some body \<and> parseBuoyData body k = Some (parsed e) \<and> k \<in> fst ` set B
       \<and> score e = calculateSurfScore (parsed e)" by blast
  then show ?case
  proof cases
    case old
    then show ?thesis
      by (auto simp add: b update_conv' split: option.splits if_splits)
  next
    case new
    then show ?thesis by (auto simp add: b)
  qed
qed

text \<open>
  C2 as stated fails: the cache holds an entry for B1, the request for B1 throws during
  the next cycle, and after the cycle the entry is gone.
\<close>

theorem C2_stale_entry_evicted_counterexample:
  "map_of (buoyCache stateB1) ''B1'' = Some entryB1 \<and>
   map_of (buoyCache (fetchAllBuoys [(''B1'', infoB1)] (\<lambda>_. None) 300 stateB1)) ''B1'' = None"
  by (simp add: stateB1_def fetchAllBuoys_def)

text \<open>
  C2, amended. A cycle of \<^verbatim>\<open>fetchAllBuoys\<close> builds a fresh \<open>results\<close> object and
  assigns it to the cache. So a location whose fetch fails during a cycle has no entry
  after it, whatever the cache held before; the cache after a cycle does not depend on
  the cache before it; and every entry after a cycle holds the reading fetched and parsed
  in that cycle, with its score.
\<close>

theorem C2_cycle_rebuilds_cache:
  "(net k = None \<longrightarrow> map_of (buoyCache (fetchAllBuoys BUOYS net now st)) k = None) \<and>
   buoyCache (fetchAllBuoys BUOYS net now st) = buoyCache (fetchAllBuoys BUOYS net now st') \<and>
   (\<forall>e. map_of (buoyCache (fetchAllBuoys BUOYS net now st)) k = Some e \<longrightarrow>
      (\<exists>body. net k = Some body \<and> parseBuoyData body k = Some (parsed e)) \<and>
      score e = calculateSurfScore (parsed e))"
proof (intro conjI impI allI)
  assume "net k = None"
  then have "map_of (fetchLoop net BUOYS []) k = map_of [] k"
    by (intro fetchLoop_skip) simp
  then show "map_of (buoyCache (fetchAllBuoys BUOYS net now st)) k = None"
    by (simp add: fetchAllBuoys_def)
next
  show "buoyCache (fetchAllBuoys BUOYS net now st) = buoyCache (fetchAllBuoys BUOYS net now st')"
    by (simp add: fetchAllBuoys_def)
next
  fix e
  assume "map_of (buoyCache (fetchAllBuoys BUOYS net now st)) k = Some e"
  then have "map_of (fetchLoop net BUOYS []) k = Some e"
    by (simp add: fetchAllBuoys_def)
  from fetchLoop_origin [OF this]
  show "\<exists>body. net k = Some body \<and> parseBuoyData body k = Some (parsed e)"
    and "score e = calculateSurfScore (parsed e)"
    by auto
qed

theorem C2_cycle_rebuilds_cache_witness:
  "(\<lambda>_. None :: string option) ''B1'' = None \<and>
   map_of (buoyCache (fetchAllBuoys [(''B1'', infoB1)] (\<lambda>_. None) 300 stateB1)) ''B1'' = None \<and>
   map_of (buoyCache (fetchAllBuoys [(''B1'', infoB1)] (\<lambda>_. Some missingPayload) 300 stateB1)) ''B1''
     = Some \<lparr>info = infoB1, parsed = missingReading, score = 20\<rparr> \<and>
   (\<exists>body. (\<lambda>_. Some missingPayload) ''B1'' = Some body \<and>
      parseBuoyData body ''B1'' = Some missingReading) \<and>
   calculateSurfScore missingReading = 20"
proof -
  have a: "map_of (buoyCache (fetchAllBuoys [(''B1'', infoB1)] (\<lambda>_. None) 300 stateB1)) ''B1'' = None"
    using C2_cycle_rebuilds_cache [of "\<lambda>_. None" "''B1''" "[(''B1'', infoB1)]" 300 stateB1 stateB1]
    by simp
  have sc: "calculateSurfScore missingReading = 20"
    by (simp add: missingReading_def calculateSurfScore_def Let_def surf_points_defs js_cmp_defs)
  have b: "map_of (buoyCache (fetchAllBuoys [(''B1'', infoB1)] (\<lambda>_. Some missingPayload) 300 stateB1)) ''B1''
     = Some \<lparr>info = infoB1, parsed = missingReading, score = 20\<rparr>"
    by (simp add: fetchAllBuoys_def missing_parse sc)
  from C2_cycle_rebuilds_cache [of "\<lambda>_. Some missingPayload" "''B1''" "[(''B1'', infoB1)]" 300 stateB1 stateB1] b
  have "(\<exists>body. (\<lambda>_. Some missingPayload) ''B1'' = Some body \<and>
      parseBuoyData body ''B1'' = Some missingReading)"
    by simp
  with a b sc show ?thesis by simp
qed

lemma js_or0_not_NaN: "js_or0 x \<noteq> NaN"
  by (simp add: js_or0_def)

lemma js_or0_NaN: "js_or0 NaN = Fin 0"
  by (simp add: js_or0_def)

text \<open>
  C3 as stated fails: in the payload below every metric is the missing marker
  \<^verbatim>\<open>MM\<close>, which \<^verbatim>\<open>parseFloat\<close> turns into NaN, yet the parser returns a reading
  (all zeros) and the cycle stores it in the cache, with score 20.
\<close>

theorem C3_all_missing_reading_cached_counterexample:
  "parseFloat (Some ''MM'') = NaN \<and>
   map (buoyFields (nonBlankLines missingPayload))
     [''WVHT'', ''DPD'', ''APD'', ''MWD'', ''WSPD'', ''WDIR'', ''PRES'', ''WTMP'']
     = replicate 8 (Some ''MM'') \<and>
   parseBuoyData missingPayload ''B1'' = Some missingReading \<and>
   map_of (buoyCache (fetchAllBuoys [(''B1'', infoB1)] (\<lambda>_. Some missingPayload) 300
       \<lparr>buoyCache = [], lastUpdate = None\<rparr>)) ''B1''
     = Some \<lparr>info = infoB1, parsed = missingReading, score = 20\<rparr>"
proof -
  have sc: "calculateSurfScore missingReading = 20"
    by (simp add: missingReading_def calculateSurfScore_def Let_def surf_points_defs js_cmp_defs)
  have f: "map (buoyFields (nonBlankLines missingPayload))
     [''WVHT'', ''DPD'', ''APD'', ''MWD'', ''WSPD'', ''WDIR'', ''PRES'', ''WTMP'']
     = replicate 8 (Some ''MM'')"
    by (simp add: missingPayload_def buoyFields_def nonBlankLines_def splitWs_def is_ws_def Let_def
      numeral_eq_Suc)
  have n: "parseFloat (Some ''MM'') = NaN"
    by (simp add: parse_defs)
  from sc f n show ?thesis by (simp add: fetchAllBuoys_def missing_parse)
qed

text \<open>
  C3, amended. The parser returns \<^verbatim>\<open>null\<close> exactly when the payload has fewer than
  three non-blank lines. Otherwise it returns a reading in which no numeric field is NaN:
  a field that fails to parse is 0 and does not fail the reading, also when all fields
  fail; and the cycle scores that reading and stores it in the cache under the buoy's key.
\<close>

theorem C3_defaults_and_caching:
  "(parseBuoyData body k = None) = (length (nonBlankLines body) < 3) \<and>
   (\<forall>r. parseBuoyData body k = Some r \<longrightarrow>
      waveHeight r \<noteq> NaN \<and> dominantPeriod r \<noteq> NaN \<and> avgPeriod r \<noteq> NaN \<and>
      waveDirection r \<noteq> NaN \<and> windSpeed r \<noteq> NaN \<and> windDirection r \<noteq> NaN \<and>
      pressure r \<noteq> NaN \<and> waterTemp r \<noteq> NaN \<and>
      (parseFloat (buoyFields (nonBlankLines body) ''WVHT'') = NaN \<longrightarrow> waveHeight r = Fin 0) \<and>
      (parseFloat (buoyFields (nonBlankLines body) ''DPD'') = NaN \<longrightarrow> dominantPeriod r = Fin 0) \<and>
      (parseFloat (buoyFields (nonBlankLines body) ''APD'') = NaN \<longrightarrow> avgPeriod r = Fin 0) \<and>
      (parseFloat (buoyFields (nonBlankLines body) ''MWD'') = NaN \<longrightarrow> waveDirection r = Fin 0) \<and>
      (parseFloat (buoyFields (nonBlankLines body) ''WSPD'') = NaN \<longrightarrow> windSpeed r = Fin 0) \<and>
      (parseFloat (buoyFields (nonBlankLines body) ''WDIR'') = NaN \<longrightarrow> windDirection r = Fin 0) \<and>
      (parseFloat (buoyFields (nonBlankLines body) ''PRES'') = NaN \<longrightarrow> pressure r = Fin 0) \<and>
      (parseFloat (buoyFields (nonBlankLines body) ''WTMP'') = NaN \<longrightarrow> waterTemp r = Fin 0) \<and>
      (distinct (map fst BUOYS) \<and> (k, binfo) \<in> set BUOYS \<and> net k = Some body \<longrightarrow>
         map_of (buoyCache (fetchAllBuoys BUOYS net now st)) k
           = Some \<lparr>info = binfo, parsed = r, score = calculateSurfScore r\<rparr>))"
proof (intro conjI allI impI)
  show "(parseBuoyData body k = None) = (length (nonBlankLines body) < 3)"
    by (simp add: parseBuoyData_def Let_def)
next
  fix r
  assume r: "parseBuoyData body k = Some r"
  then have len: "\<not> length (nonBlankLines body) < 3"
    by (simp add: parseBuoyData_def Let_def split: if_splits)
  have fields:
    "waveHeight r = js_or0 (parseFloat (buoyFields (nonBlankLines body) ''WVHT''))"
    "dominantPeriod r = js_or0 (parseFloat (buoyFields (nonBlankLines body) ''DPD''))"
    "avgPeriod r = js_or0 (parseFloat (buoyFields (nonBlankLines body) ''APD''))"
    "waveDirection r = js_or0 (parseFloat (buoyFields (nonBlankLines body) ''MWD''))"
    "windSpeed r = js_or0 (parseFloat (buoyFields (nonBlankLines body) ''WSPD''))"
    "windDirection r = js_or0 (parseFloat (buoyFields (nonBlankLines body) ''WDIR''))"
    "pressure r = js_or0 (parseFloat (buoyFields (nonBlankLines body) ''PRES''))"
    "waterTemp r = js_or0 (parseFloat (buoyFields (nonBlankLines body) ''WTMP''))"
    using r len by (auto simp add: parseBuoyData_def Let_def)
  show "waveHeight r \<noteq> NaN" "dominantPeriod r \<noteq> NaN" "avgPeriod r \<noteq> NaN"
    "waveDirection r \<noteq> NaN" "windSpeed r \<noteq> NaN" "windDirection r \<noteq> NaN"
    "pressure r \<noteq> NaN" "waterTemp r \<noteq> NaN"
    by (simp_all add: fields js_or0_not_NaN)
  show "parseFloat (buoyFields (nonBlankLines body) ''WVHT'') = NaN \<Longrightarrow> waveHeight r = Fin 0"
    "parseFloat (buoyFields (nonBlankLines body) ''DPD'') = NaN \<Longrightarrow> dominantPeriod r = Fin 0"
    "parseFloat (buoyFields (nonBlankLines body) ''APD'') = NaN \<Longrightarrow> avgPeriod r = Fin 0"
    "parseFloat (buoyFields (nonBlankLines body) ''MWD'') = NaN \<Longrightarrow> waveDirection r = Fin 0"
    "parseFloat (buoyFields (nonBlankLines body) ''WSPD'') = NaN \<Longrightarrow> windSpeed r = Fin 0"
    "parseFloat (buoyFields (nonBlankLines body) ''WDIR'') = NaN \<Longrightarrow> windDirection r = Fin 0"
    "parseFloat (buoyFields (nonBlankLines body) ''PRES'') = NaN \<Longrightarrow> pressure r = Fin 0"
    "parseFloat (buoyFields (nonBlankLines body) ''WTMP'') = NaN \<Longrightarrow> waterTemp r = Fin 0"
    by (simp_all add: fields js_or0_NaN)
  show "map_of (buoyCache (fetchAllBuoys BUOYS net now st)) k
           = Some \<lparr>info = binfo, parsed = r, score = calculateSurfScore r\<rparr>"
    if "distinct (map fst BUOYS) \<and> (k, binfo) \<in> set BUOYS \<and> net k = Some body"
    using that r fetchLoop_stored [of BUOYS k binfo net body r "[]"]
    by (simp add: fetchAllBuoys_def)
qed

theorem C3_defaults_and_caching_witness:
  "parseBuoyData missingPayload ''B1'' = Some missingReading \<and>
   parseFloat (buoyFields (nonBlankLines missingPayload) ''WVHT'') = NaN \<and>
   waveHeight missingReading = Fin 0 \<and>
   distinct (map fst [(''B1'', infoB1)]) \<and>
   (''B1'', infoB1) \<in> set [(''B1'', infoB1)] \<and>
   map_of (buoyCache (fetchAllBuoys [(''B1'', infoB1)] (\<lambda>_. Some missingPayload) 300 stateB1)) ''B1''
     = Some \<lparr>info = infoB1, parsed = missingReading, score = calculateSurfScore missingReading\<rparr>"
proof -
  have f: "parseFloat (buoyFields (nonBlankLines missingPayload) ''WVHT'') = NaN"
    by (simp add: missingPayload_def parse_defs)
  from C3_defaults_and_caching [of missingPayload "''B1''" "[(''B1'', infoB1)]" infoB1
      "\<lambda>_. Some missingPayload" 300 stateB1]
  have "waveHeight missingReading = Fin 0 \<and>
    map_of (buoyCache (fetchAllBuoys [(''B1'', infoB1)] (\<lambda>_. Some missingPayload) 300 stateB1)) ''B1''
     = Some \<lparr>info = infoB1, parsed = missingReading, score = calculateSurfScore missingReading\<rparr>"
    using f by (simp add: missing_parse)
  with f show ?thesis by (simp add: missing_parse)
qed

section \<open>The fallback between adapters\<close>

text \<open>The resolver tries the adapters that fail and then the first one that succeeds,
  and returns what that one returned.\<close>

lemma resolve_tried:
  "snd (resolve run as) =
     takeWhile (\<lambda>a. run a = None) as @ take 1 (dropWhile (\<lambda>a. run a = None) as)"
  by (induction as) (auto split: option.splits)

lemma resolve_result:
  "fst (resolve run as) =
     (case dropWhile (\<lambda>a. run a = None) as of [] \<Rightarrow> None | a # _ \<Rightarrow> run a)"
  by (induction as) (auto split: option.splits)

text \<open>The fallback of the code is the resolver on the preference order of the resort.\<close>

lemma fetchResortData_resolve:
  "fetchResortData env r = resolve (runAdapter env r) (preferenceOrder r)"
  by (auto simp add: fetchResortData_def preferenceOrder_def runAdapter_def Let_def
      split: option.splits)

text \<open>
  C7. The fallback of \<^verbatim>\<open>fetchAllSkiData\<close> is the resolver of the specification on the
  preference order of the resort: the adapters called are those that fail, in preference
  order, followed by the first one that returns a reading, and the result is that
  reading. For a resort in the US, when NOAA fails and OpenWeather succeeds the result is
  the OpenWeather reading and it alone reaches the result list; when NOAA succeeds,
  OpenWeather is not called.
\<close>

theorem C7_fallback_order:
  "fetchResortData env r = resolve (runAdapter env r) (preferenceOrder r) \<and>
   snd (fetchResortData env r) =
     takeWhile (\<lambda>a. runAdapter env r a = None) (preferenceOrder r) @
     take 1 (dropWhile (\<lambda>a. runAdapter env r a = None) (preferenceOrder r)) \<and>
   fst (fetchResortData env r) =
     (case dropWhile (\<lambda>a. runAdapter env r a = None) (preferenceOrder r) of
        [] \<Rightarrow> None | a # _ \<Rightarrow> runAdapter env r a) \<and>
   (country r = ''US'' \<and> runAdapter env r NOAA = None \<and> runAdapter env r OpenWeather = Some d \<longrightarrow>
      fetchResortData env r = (Some d, [NOAA, OpenWeather]) \<and>
      fetchAllSkiData env [r] =
        [\<lparr>res_resort = r, res_weather = d, res_score = calculateSkiScore (skiInput d),
          isStrike = (calculateSkiScore (skiInput d) \<ge> 70)\<rparr>]) \<and>
   (country r = ''US'' \<and> runAdapter env r NOAA = Some d \<longrightarrow>
      fetchResortData env r = (Some d, [NOAA]))"
proof (intro conjI impI)
  show "fetchResortData env r = resolve (runAdapter env r) (preferenceOrder r)"
    by (rule fetchResortData_resolve)
  show "snd (fetchResortData env r) =
     takeWhile (\<lambda>a. runAdapter env r a = None) (preferenceOrder r) @
     take 1 (dropWhile (\<lambda>a. runAdapter env r a = None) (preferenceOrder r))"
    by (simp only: fetchResortData_resolve resolve_tried)
  show "fst (fetchResortData env r) =
     (case dropWhile (\<lambda>a. runAdapter env r a = None) (preferenceOrder r) of
        [] \<Rightarrow> None | a # _ \<Rightarrow> runAdapter env r a)"
    by (simp only: fetchResortData_resolve resolve_result)
next
  assume a: "country r = ''US'' \<and> runAdapter env r NOAA = None \<and> runAdapter env r OpenWeather = Some d"
  then show b: "fetchResortData env r = (Some d, [NOAA, OpenWeather])"
    by (simp add: fetchResortData_resolve preferenceOrder_def)
  show "fetchAllSkiData env [r] =
        [\<lparr>res_resort = r, res_weather = d, res_score = calculateSkiScore (skiInput d),
          isStrike = (calculateSkiScore (skiInput d) \<ge> 70)\<rparr>]"
    by (simp add: fetchAllSkiData_def b Let_def)
next
  assume "country r = ''US'' \<and> runAdapter env r NOAA = Some d"
  then show "fetchResortData env r = (Some d, [NOAA])"
    by (simp add: fetchResortData_resolve preferenceOrder_def)
qed

lemma fallback_adapters:
  "runAdapter fallbackEnv alta NOAA = None"
  "runAdapter fallbackEnv alta OpenWeather = Some owWeather"
  by (simp_all add: runAdapter_def fallbackEnv_def alta_def owWeather_def fetchNOAAWeather_def
      fetchOpenWeather_def snowStep_def js_sub_def js_cmp_defs Let_def)

theorem C7_fallback_order_witness:
  "country alta = ''US'' \<and> runAdapter fallbackEnv alta NOAA = None \<and>
   runAdapter fallbackEnv alta OpenWeather = Some owWeather \<and>
   fetchResortData fallbackEnv alta = (Some owWeather, [NOAA, OpenWeather]) \<and>
   map res_weather (fetchAllSkiData fallbackEnv [alta]) = [owWeather]"
proof -
  have c: "country alta = ''US''" by (simp add: alta_def)
  have "fetchResortData fallbackEnv alta = (Some owWeather, [NOAA, OpenWeather]) \<and>
      fetchAllSkiData fallbackEnv [alta] =
        [\<lparr>res_resort = alta, res_weather = owWeather,
          res_score = calculateSkiScore (skiInput owWeather),
          isStrike = (calculateSkiScore (skiInput owWeather) \<ge> 70)\<rparr>]"
    using C7_fallback_order [of fallbackEnv alta owWeather] c fallback_adapters by blast
  with c fallback_adapters show ?thesis by simp
qed

section \<open>The active strikes\<close>

text \<open>Sorting on the negated score leaves the scores in descending order.\<close>

lemma sorted_by_negated_key:
  "sorted_wrt (\<lambda>a b. f b \<le> f a) (sort_key (\<lambda>x. - f x) xs)" for f :: "'a \<Rightarrow> int"
proof -
  have "sorted (map (\<lambda>x. - f x) (sort_key (\<lambda>x. - f x) xs))"
    by (rule sorted_sort_key)
  then show ?thesis by (simp add: sorted_map)
qed

lemma apiStrikes_sorted:
  "sorted_wrt (\<lambda>a b. s_score b \<le> s_score a) (fst (apiStrikes st))"
  by (simp add: apiStrikes_def Let_def sorted_by_negated_key)

lemma apiStrikes_mset:
  "mset (fst (apiStrikes st)) =
     mset (map toStrike (filter (\<lambda>buoy. score buoy \<ge> 70) (map snd (buoyCache st))))"
  by (simp add: apiStrikes_def Let_def)

lemma findStrikes_sorted:
  "sorted_wrt (\<lambda>a b. fs_score b \<le> fs_score a) (findStrikes resortData)"
proof -
  have "sorted_wrt (\<lambda>a b. res_score b \<le> res_score a)
      (sort_key (\<lambda>r. - res_score r) (filter isStrike resortData))"
    by (rule sorted_by_negated_key)
  then show ?thesis
    by (simp add: findStrikes_def sorted_wrt_map toSkiStrike_def)
qed

lemma findStrikes_mset:
  "mset (findStrikes resortData) = mset (map toSkiStrike (filter isStrike resortData))"
  by (simp add: findStrikes_def)

lemma fetchAllSkiData_isStrike:
  assumes "res \<in> set (fetchAllSkiData env resorts)"
  shows "isStrike res = (res_score res \<ge> 70)"
  using skiLoop_mem [of res env resorts "[]"] assms
  by (auto simp add: fetchAllSkiData_def)

lemma parseBuoyData_buoyId: "parseBuoyData body k = Some p \<Longrightarrow> buoyId p = k"
  by (auto simp add: parseBuoyData_def Let_def split: if_splits)

text \<open>The keys of \<open>results\<close> stay distinct, and every entry carries its key as buoy id.\<close>

lemma fetchLoop_distinct:
  "distinct (map fst acc) \<Longrightarrow> distinct (map fst (fetchLoop net B acc))"
proof (induction B arbitrary: acc)
  case Nil
  then show ?case by simp
next
  case (Cons b B)
  obtain bId binfo where b: "b = (bId, binfo)" by (cases b)
  show ?case
    using Cons.prems
    by (auto simp add: b distinct_update intro!: Cons.IH split: option.splits)
qed

text \<open>After a cycle, the ids the route returns are the keys of the cache with a score of at
  least 70.\<close>

lemma cycle_strike_ids:
  "(k \<in> s_id ` set (fst (apiStrikes (fetchAllBuoys BUOYS net now st)))) =
   (\<exists>e. map_of (buoyCache (fetchAllBuoys BUOYS net now st)) k = Some e \<and> score e \<ge> 70)"
proof -
  let ?c = "fetchLoop net BUOYS []"
  have d: "distinct (map fst ?c)" by (rule fetchLoop_distinct) simp
  have key: "buoyId (parsed e) = k'" if "(k', e) \<in> set ?c" for k' e
  proof -
    from that d have "map_of ?c k' = Some e" by simp
    from fetchLoop_origin [OF this] show ?thesis
      by (auto dest: parseBuoyData_buoyId)
  qed
  have c: "buoyCache (fetchAllBuoys BUOYS net now st) = ?c"
    by (simp add: fetchAllBuoys_def)
  have s: "set (fst (apiStrikes (fetchAllBuoys BUOYS net now st))) =
      toStrike ` {e \<in> snd ` set ?c. score e \<ge> 70}"
    by (simp add: apiStrikes_def Let_def c)
  show ?thesis
  proof
    assume "k \<in> s_id ` set (fst (apiStrikes (fetchAllBuoys BUOYS net now st)))"
    then obtain k' e where e: "(k', e) \<in> set ?c" "score e \<ge> 70" "k = s_id (toStrike e)"
      unfolding s by auto
    from key [OF e(1)] e(3) have "k = k'" by (simp add: toStrike_def)
    with e d show "\<exists>e. map_of (buoyCache (fetchAllBuoys BUOYS net now st)) k = Some e \<and> score e \<ge> 70"
      by (auto simp add: c)
  next
    assume "\<exists>e. map_of (buoyCache (fetchAllBuoys BUOYS net now st)) k = Some e \<and> score e \<ge> 70"
    then obtain e where e: "map_of ?c k = Some e" "score e \<ge> 70" by (auto simp add: c)
    then have m: "(k, e) \<in> set ?c" by (auto dest: map_of_SomeD)
    from key [OF m] have "s_id (toStrike e) = k" by (simp add: toStrike_def)
    moreover from m e(2) have "toStrike e \<in> toStrike ` {e \<in> snd ` set ?c. score e \<ge> 70}"
      by force
    ultimately show "k \<in> s_id ` set (fst (apiStrikes (fetchAllBuoys BUOYS net now st)))"
      unfolding s by force
  qed
qed

text \<open>The objects the two queries build from an entry.\<close>

lemma toStrike_eq:
  "toStrike = (\<lambda>buoy.
     \<lparr>s_type = ''surf'', s_id = buoyId (parsed buoy), s_name = name (info buoy),
      s_lat = lat (info buoy), s_lon = lon (info buoy), s_score = score buoy,
      s_waveHeight = waveHeight (parsed buoy), s_period = dominantPeriod (parsed buoy),
      s_wind = windSpeed (parsed buoy), s_timestamp = timestamp (parsed buoy)\<rparr>)"
  by (rule ext) (simp add: toStrike_def)

lemma toSkiStrike_eq:
  "toSkiStrike = (\<lambda>r.
     \<lparr>fs_name = r_name (res_resort r), fs_lat = r_lat (res_resort r),
      fs_lon = r_lon (res_resort r), fs_score = res_score r\<rparr>)"
  by (rule ext) (simp add: toSkiStrike_def)

text \<open>The results of \<^verbatim>\<open>fetchAllSkiData\<close>: one per resort for which the fallback returned
  data, in the order of the resorts.\<close>

lemma skiLoop_exact:
  "skiLoop env rs acc = acc @ concat (map (\<lambda>r.
      case fst (fetchResortData env r) of
        None \<Rightarrow> []
      | Some d \<Rightarrow> [\<lparr>res_resort = r, res_weather = d, res_score = calculateSkiScore (skiInput d),
          isStrike = (calculateSkiScore (skiInput d) \<ge> 70)\<rparr>]) rs)"
  by (induction rs arbitrary: acc) (auto simp add: Let_def split: option.splits)

lemma fetchAllSkiData_set:
  "set (fetchAllSkiData env resorts) =
     {res. \<exists>r \<in> set resorts. \<exists>d. fst (fetchResortData env r) = Some d \<and>
        res = \<lparr>res_resort = r, res_weather = d, res_score = calculateSkiScore (skiInput d),
               isStrike = (calculateSkiScore (skiInput d) \<ge> 70)\<rparr>}"
  by (auto simp add: fetchAllSkiData_def skiLoop_exact split: option.splits)

text \<open>The objects \<^verbatim>\<open>findStrikes\<close> returns are those of the resorts whose data scores at
  least 70, with the name and coordinates of the resort and that score.\<close>

lemma ski_strike_members:
  "(s \<in> set (findStrikes (fetchAllSkiData env resorts))) =
   (\<exists>r \<in> set resorts. \<exists>d. fst (fetchResortData env r) = Some d \<and>
      calculateSkiScore (skiInput d) \<ge> 70 \<and>
      s = \<lparr>fs_name = r_name r, fs_lat = r_lat r, fs_lon = r_lon r,
            fs_score = calculateSkiScore (skiInput d)\<rparr>)"
proof
  assume "s \<in> set (findStrikes (fetchAllSkiData env resorts))"
  then obtain res where res: "res \<in> set (fetchAllSkiData env resorts)" "isStrike res"
      "s = toSkiStrike res"
    by (auto simp add: findStrikes_def)
  from res(1) obtain r d where rd: "r \<in> set resorts" "fst (fetchResortData env r) = Some d"
      "res = \<lparr>res_resort = r, res_weather = d, res_score = calculateSkiScore (skiInput d),
               isStrike = (calculateSkiScore (skiInput d) \<ge> 70)\<rparr>"
    unfolding fetchAllSkiData_set by blast
  from res(2,3) rd(3) have "calculateSkiScore (skiInput d) \<ge> 70"
      "s = \<lparr>fs_name = r_name r, fs_lat = r_lat r, fs_lon = r_lon r,
            fs_score = calculateSkiScore (skiInput d)\<rparr>"
    by (simp_all add: toSkiStrike_def)
  with rd(1,2) show "\<exists>r \<in> set resorts. \<exists>d. fst (fetchResortData env r) = Some d \<and>
      calculateSkiScore (skiInput d) \<ge> 70 \<and>
      s = \<lparr>fs_name = r_name r, fs_lat = r_lat r, fs_lon = r_lon r,
            fs_score = calculateSkiScore (skiInput d)\<rparr>"
    by blast
next
  assume "\<exists>r \<in> set resorts. \<exists>d. fst (fetchResortData env r) = Some d \<and>
      calculateSkiScore (skiInput d) \<ge> 70 \<and>
      s = \<lparr>fs_name = r_name r, fs_lat = r_lat r, fs_lon = r_lon r,
            fs_score = calculateSkiScore (skiInput d)\<rparr>"
  then obtain r d where rd: "r \<in> set resorts" "fst (fetchResortData env r) = Some d"
      "calculateSkiScore (skiInput d) \<ge> 70"
      "s = \<lparr>fs_name = r_name r, fs_lat = r_lat r, fs_lon = r_lon r,
            fs_score = calculateSkiScore (skiInput d)\<rparr>"
    by blast
  let ?res = "\<lparr>res_resort = r, res_weather = d, res_score = calculateSkiScore (skiInput d),
               isStrike = (calculateSkiScore (skiInput d) \<ge> 70)\<rparr>"
  from rd(1,2) have "?res \<in> set (fetchAllSkiData env resorts)"
    unfolding fetchAllSkiData_set by blast
  moreover from rd(3) have "isStrike ?res" by simp
  moreover from rd(4) have "s = toSkiStrike ?res" by (simp add: toSkiStrike_def)
  ultimately show "s \<in> set (findStrikes (fetchAllSkiData env resorts))"
    by (auto simp add: findStrikes_def)
qed

text \<open>After a cycle the route returns, for each key of the cache with a score of at least
  70, the object built from that entry, and nothing else.\<close>

lemma cycle_strike_members:
  "(s \<in> set (fst (apiStrikes (fetchAllBuoys BUOYS net now st)))) =
   (\<exists>k e. map_of (buoyCache (fetchAllBuoys BUOYS net now st)) k = Some e \<and> score e \<ge> 70 \<and>
      s = \<lparr>s_type = ''surf'', s_id = k, s_name = name (info e),
           s_lat = lat (info e), s_lon = lon (info e), s_score = score e,
           s_waveHeight = waveHeight (parsed e), s_period = dominantPeriod (parsed e),
           s_wind = windSpeed (parsed e), s_timestamp = timestamp (parsed e)\<rparr>)"
proof -
  let ?c = "fetchLoop net BUOYS []"
  have d: "distinct (map fst ?c)" by (rule fetchLoop_distinct) simp
  have key: "buoyId (parsed e) = k" if "map_of ?c k = Some e" for k e
    using fetchLoop_origin [OF that] by (auto dest: parseBuoyData_buoyId)
  have c: "buoyCache (fetchAllBuoys BUOYS net now st) = ?c"
    by (simp add: fetchAllBuoys_def)
  have s: "set (fst (apiStrikes (fetchAllBuoys BUOYS net now st))) =
      toStrike ` {e \<in> snd ` set ?c. score e \<ge> 70}"
    by (simp add: apiStrikes_def Let_def c)
  show ?thesis
  proof
    assume "s \<in> set (fst (apiStrikes (fetchAllBuoys BUOYS net now st)))"
    then obtain k e where e: "(k, e) \<in> set ?c" "score e \<ge> 70" "s = toStrike e"
      unfolding s by auto
    from e(1) d have m: "map_of ?c k = Some e" by simp
    from key [OF m] e(3) have "s = \<lparr>s_type = ''surf'', s_id = k, s_name = name (info e),
           s_lat = lat (info e), s_lon = lon (info e), s_score = score e,
           s_waveHeight = waveHeight (parsed e), s_period = dominantPeriod (parsed e),
           s_wind = windSpeed (parsed e), s_timestamp = timestamp (parsed e)\<rparr>"
      by (simp add: toStrike_def)
    with m e(2) show "\<exists>k e. map_of (buoyCache (fetchAllBuoys BUOYS net now st)) k = Some e \<and>
      score e \<ge> 70 \<and>
      s = \<lparr>s_type = ''surf'', s_id = k, s_name = name (info e),
           s_lat = lat (info e), s_lon = lon (info e), s_score = score e,
           s_waveHeight = waveHeight (parsed e), s_period = dominantPeriod (parsed e),
           s_wind = windSpeed (parsed e), s_timestamp = timestamp (parsed e)\<rparr>"
      unfolding c by blast
  next
    assume "\<exists>k e. map_of (buoyCache (fetchAllBuoys BUOYS net now st)) k = Some e \<and>
      score e \<ge> 70 \<and>
      s = \<lparr>s_type = ''surf'', s_id = k, s_name = name (info e),
           s_lat = lat (info e), s_lon = lon (info e), s_score = score e,
           s_waveHeight = waveHeight (parsed e), s_period = dominantPeriod (parsed e),
           s_wind = windSpeed (parsed e), s_timestamp = timestamp (parsed e)\<rparr>"
    then obtain k e where e: "map_of ?c k = Some e" "score e \<ge> 70"
      "s = \<lparr>s_type = ''surf'', s_id = k, s_name = name (info e),
           s_lat = lat (info e), s_lon = lon (info e), s_score = score e,
           s_waveHeight = waveHeight (parsed e), s_period = dominantPeriod (parsed e),
           s_wind = windSpeed (parsed e), s_timestamp = timestamp (parsed e)\<rparr>"
      unfolding c by blast
    from key [OF e(1)] e(3) have "s = toStrike e" by (simp add: toStrike_def)
    moreover from e(1) have "(k, e) \<in> set ?c" by (rule map_of_SomeD)
    then have "e \<in> snd ` set ?c" by force
    ultimately show "s \<in> set (fst (apiStrikes (fetchAllBuoys BUOYS net now st)))"
      unfolding s using e(2) by blast
  qed
qed

text \<open>
  C8. The strikes route returns the cache entries with a score of at least 70, each once
  and no other, as objects that carry the id, name, coordinates, score and metrics of
  the entry, sorted by score in descending order; after a refresh cycle a location is
  returned exactly when the cache holds an entry for it with a score of at least 70,
  and the object returned for it carries its key and the score of that entry. Likewise
  \<^verbatim>\<open>findStrikes\<close> on the results of \<^verbatim>\<open>fetchAllSkiData\<close> returns, sorted by score
  in descending order, exactly the resorts whose fetched data scores at least 70, each
  with the name and coordinates of the resort and that score.
\<close>

theorem C8_active_strikes:
  "sorted_wrt (\<lambda>a b. s_score b \<le> s_score a) (fst (apiStrikes st)) \<and>
   mset (fst (apiStrikes st)) =
     mset (map (\<lambda>buoy.
         \<lparr>s_type = ''surf'', s_id = buoyId (parsed buoy), s_name = name (info buoy),
          s_lat = lat (info buoy), s_lon = lon (info buoy), s_score = score buoy,
          s_waveHeight = waveHeight (parsed buoy), s_period = dominantPeriod (parsed buoy),
          s_wind = windSpeed (parsed buoy), s_timestamp = timestamp (parsed buoy)\<rparr>)
       (filter (\<lambda>buoy. score buoy \<ge> 70) (map snd (buoyCache st)))) \<and>
   (k \<in> s_id ` set (fst (apiStrikes (fetchAllBuoys BUOYS net now st)))) =
     (\<exists>e. map_of (buoyCache (fetchAllBuoys BUOYS net now st)) k = Some e \<and> score e \<ge> 70) \<and>
   (s \<in> set (fst (apiStrikes (fetchAllBuoys BUOYS net now st)))) =
     (\<exists>k e. map_of (buoyCache (fetchAllBuoys BUOYS net now st)) k = Some e \<and> score e \<ge> 70 \<and>
        s = \<lparr>s_type = ''surf'', s_id = k, s_name = name (info e),
             s_lat = lat (info e), s_lon = lon (info e), s_score = score e,
             s_waveHeight = waveHeight (parsed e), s_period = dominantPeriod (parsed e),
             s_wind = windSpeed (parsed e), s_timestamp = timestamp (parsed e)\<rparr>) \<and>
   sorted_wrt (\<lambda>a b. fs_score b \<le> fs_score a) (findStrikes (fetchAllSkiData env resorts)) \<and>
   mset (findStrikes (fetchAllSkiData env resorts)) =
     mset (map (\<lambda>r.
         \<lparr>fs_name = r_name (res_resort r), fs_lat = r_lat (res_resort r),
          fs_lon = r_lon (res_resort r), fs_score = res_score r\<rparr>)
       (filter (\<lambda>r. res_score r \<ge> 70) (fetchAllSkiData env resorts))) \<and>
   (t \<in> set (findStrikes (fetchAllSkiData env resorts))) =
     (\<exists>r \<in> set resorts. \<exists>d. fst (fetchResortData env r) = Some d \<and>
        calculateSkiScore (skiInput d) \<ge> 70 \<and>
        t = \<lparr>fs_name = r_name r, fs_lat = r_lat r, fs_lon = r_lon r,
              fs_score = calculateSkiScore (skiInput d)\<rparr>)"
proof -
  have f: "filter isStrike (fetchAllSkiData env resorts) =
      filter (\<lambda>r. res_score r \<ge> 70) (fetchAllSkiData env resorts)"
    by (rule filter_cong) (simp_all add: fetchAllSkiData_isStrike)
  have a: "mset (fst (apiStrikes st)) =
     mset (map (\<lambda>buoy.
         \<lparr>s_type = ''surf'', s_id = buoyId (parsed buoy), s_name = name (info buoy),
          s_lat = lat (info buoy), s_lon = lon (info buoy), s_score = score buoy,
          s_waveHeight = waveHeight (parsed buoy), s_period = dominantPeriod (parsed buoy),
          s_wind = windSpeed (parsed buoy), s_timestamp = timestamp (parsed buoy)\<rparr>)
       (filter (\<lambda>buoy. score buoy \<ge> 70) (map snd (buoyCache st))))"
    by (simp only: apiStrikes_mset toStrike_eq)
  have b: "mset (findStrikes (fetchAllSkiData env resorts)) =
     mset (map (\<lambda>r.
         \<lparr>fs_name = r_name (res_resort r), fs_lat = r_lat (res_resort r),
          fs_lon = r_lon (res_resort r), fs_score = res_score r\<rparr>)
       (filter (\<lambda>r. res_score r \<ge> 70) (fetchAllSkiData env resorts)))"
    by (simp only: findStrikes_mset f toSkiStrike_eq)
  from a b show ?thesis
    by (simp only: apiStrikes_sorted cycle_strike_ids cycle_strike_members findStrikes_sorted
        ski_strike_members simp_thms)
qed

text \<open>A cycle over two buoys, one of which strikes, and a ski run over two resorts, one of
  which strikes.\<close>

lemma strike_parse: "parseBuoyData strikePayload ''B1'' = Some parsedB1"
  by (simp add: strikePayload_def parsedB1_def readingB1_def parse_defs)

lemma missing_parse_B2: "parseBuoyData missingPayload ''B2'' = Some (missingReading\<lparr>buoyId := ''B2''\<rparr>)"
  by (simp add: missingPayload_def missingReading_def parse_defs)

lemma two_buoy_cycle:
  "buoyCache (fetchAllBuoys twoBuoys twoBuoyNet 300 stateB1) =
     [(''B1'', \<lparr>info = infoB1, parsed = parsedB1, score = 100\<rparr>),
      (''B2'', \<lparr>info = infoB2, parsed = missingReading\<lparr>buoyId := ''B2''\<rparr>, score = 20\<rparr>)]"
proof -
  have s1: "calculateSurfScore parsedB1 = 100"
    by (simp add: parsedB1_def readingB1_def calculateSurfScore_def Let_def surf_points_defs
        js_cmp_defs)
  have s2: "calculateSurfScore (missingReading\<lparr>buoyId := ''B2''\<rparr>) = 20"
    by (simp add: missingReading_def calculateSurfScore_def Let_def surf_points_defs js_cmp_defs)
  show ?thesis
    by (simp add: fetchAllBuoys_def twoBuoys_def twoBuoyNet_def strike_parse missing_parse_B2
        s1 s2)
qed

lemma mixed_ski_run:
  "map (\<lambda>r. (r_name (res_resort r), res_score r)) (fetchAllSkiData mixedEnv [alta, whistler]) =
     [(''Alta'', 30), (''Whistler Blackcomb'', 80)]"
  by (simp add: fetchAllSkiData_def fetchResortData_def fetchNOAAWeather_def
      fetchOpenWeather_def snowStep_def js_sub_def Let_def mixedEnv_def alta_def whistler_def
      skiInput_def js_opt_or0_def js_or_def truthy_def js_or0_def calculateSkiScore_def
      snowPoints_def tempPoints_def skiWindPoints_def js_cmp_defs)


lemma whistler_data:
  "fst (fetchResortData mixedEnv whistler) = Some owWeather"
  "calculateSkiScore (skiInput owWeather) = 80"
  by (simp_all add: fetchResortData_def fetchOpenWeather_def snowStep_def js_sub_def Let_def
      mixedEnv_def whistler_def owWeather_def skiInput_def js_opt_or0_def js_or_def truthy_def
      js_or0_def calculateSkiScore_def snowPoints_def tempPoints_def skiWindPoints_def
      js_cmp_defs)

theorem C8_active_strikes_witness:
  "map (\<lambda>s. (s_id s, s_score s)) (fst (apiStrikes (fetchAllBuoys twoBuoys twoBuoyNet 300 stateB1)))
     = [(''B1'', 100)] \<and>
   ''B1'' \<in> s_id ` set (fst (apiStrikes (fetchAllBuoys twoBuoys twoBuoyNet 300 stateB1))) \<and>
   map_of (buoyCache (fetchAllBuoys twoBuoys twoBuoyNet 300 stateB1)) ''B1''
     = Some \<lparr>info = infoB1, parsed = parsedB1, score = 100\<rparr> \<and>
   map (\<lambda>r. (r_name (res_resort r), res_score r)) (fetchAllSkiData mixedEnv [alta, whistler])
     = [(''Alta'', 30), (''Whistler Blackcomb'', 80)] \<and>
   \<lparr>fs_name = ''Whistler Blackcomb'', fs_lat = 50.116, fs_lon = - 122.949, fs_score = 80\<rparr>
     \<in> set (findStrikes (fetchAllSkiData mixedEnv [alta, whistler])) \<and>
   whistler \<in> set [alta, whistler] \<and>
   fst (fetchResortData mixedEnv whistler) = Some owWeather \<and>
   calculateSkiScore (skiInput owWeather) = 80"
proof -
  let ?st = "fetchAllBuoys twoBuoys twoBuoyNet 300 stateB1"
  let ?t = "\<lparr>fs_name = ''Whistler Blackcomb'', fs_lat = 50.116, fs_lon = - 122.949,
    fs_score = 80\<rparr>"
  note inst = C8_active_strikes [of stateB1 "''B1''" twoBuoys twoBuoyNet 300
      "toStrike \<lparr>info = infoB1, parsed = parsedB1, score = 100\<rparr>" mixedEnv "[alta, whistler]" ?t]
  have m: "map_of (buoyCache ?st) ''B1'' = Some \<lparr>info = infoB1, parsed = parsedB1, score = 100\<rparr>"
    by (simp add: two_buoy_cycle)
  then have "\<exists>e. map_of (buoyCache ?st) ''B1'' = Some e \<and> score e \<ge> 70"
    by simp
  with inst have ids: "''B1'' \<in> s_id ` set (fst (apiStrikes ?st))"
    by blast
  have l: "map (\<lambda>s. (s_id s, s_score s)) (fst (apiStrikes ?st)) = [(''B1'', 100)]"
    by (simp add: apiStrikes_def two_buoy_cycle toStrike_def parsedB1_def readingB1_def
        missingReading_def)
  have w: "whistler \<in> set [alta, whistler]" by simp
  have t: "?t = \<lparr>fs_name = r_name whistler, fs_lat = r_lat whistler, fs_lon = r_lon whistler,
      fs_score = calculateSkiScore (skiInput owWeather)\<rparr>"
    by (simp add: whistler_def whistler_data)
  from w whistler_data t
  have "\<exists>r \<in> set [alta, whistler]. \<exists>d. fst (fetchResortData mixedEnv r) = Some d \<and>
        calculateSkiScore (skiInput d) \<ge> 70 \<and>
        ?t = \<lparr>fs_name = r_name r, fs_lat = r_lat r, fs_lon = r_lon r,
              fs_score = calculateSkiScore (skiInput d)\<rparr>"
    by (intro bexI [of _ whistler] exI [of _ owWeather]) simp_all
  with inst have ski: "?t \<in> set (findStrikes (fetchAllSkiData mixedEnv [alta, whistler]))"
    by blast
  from l ids m mixed_ski_run ski w whistler_data show ?thesis by simp
qed

section \<open>The strike detector keeps one open event per location\<close>

text \<open>Closing the open events of a location leaves none open for it and touches no other
  location.\<close>

lemma closeFor_open_same:
  "filter (openFor loc) (closeFor loc now evs) = []"
  by (induction evs) (auto simp add: closeFor_def openFor_def)

lemma closeFor_open_other:
  "loc' \<noteq> loc \<Longrightarrow> filter (openFor loc') (closeFor loc now evs) = filter (openFor loc') evs"
  by (induction evs) (auto simp add: closeFor_def openFor_def)

lemma closeFor_open_length:
  "length (filter (openFor loc') (closeFor loc now evs)) \<le> length (filter (openFor loc') evs)"
  by (cases "loc' = loc") (simp_all add: closeFor_open_same closeFor_open_other)

text \<open>Raising the peak of an event neither opens nor closes it.\<close>

lemma peak_update_open_length:
  "length (filter (openFor loc')
      (map (\<lambda>e. if openFor loc e \<and> sc > peakScore e then e\<lparr>peakScore := sc, peakAt := now\<rparr> else e) evs))
   = length (filter (openFor loc') evs)"
  by (induction evs) (auto simp add: openFor_def)

text \<open>Each transition keeps the number of open events of every location at one or less.\<close>

lemma onScore_open_length:
  assumes "length (openEvents loc' d) \<le> 1"
  shows "length (openEvents loc' (onScore loc sc now d)) \<le> 1"
proof (cases "sc \<ge> threshold")
  case False
  then have "events (onScore loc sc now d) = closeFor loc now (events d)"
    by (simp add: onScore_def)
  with assms closeFor_open_length [of loc' loc now "events d"] show ?thesis
    by (simp add: openEvents_def)
next
  case True
  show ?thesis
  proof (cases "filter (openFor loc) (events d) = []")
    case True
    with \<open>sc \<ge> threshold\<close> have "events (onScore loc sc now d) = events d @
        [\<lparr>locationId = loc, startedAt = now, endedAt = None, peakScore = sc, peakAt = now\<rparr>]"
      by (simp add: onScore_def)
    with assms True show ?thesis
      by (cases "loc' = loc") (simp_all add: openEvents_def openFor_def)
  next
    case False
    with \<open>sc \<ge> threshold\<close> have "events (onScore loc sc now d) =
        map (\<lambda>e. if openFor loc e \<and> sc > peakScore e then e\<lparr>peakScore := sc, peakAt := now\<rparr> else e)
          (events d)"
      by (simp add: onScore_def)
    then have "length (openEvents loc' (onScore loc sc now d)) = length (openEvents loc' d)"
      unfolding openEvents_def by (simp only: peak_update_open_length)
    with assms show ?thesis by simp
  qed
qed

lemma onSilence_open_length:
  assumes "length (openEvents loc' d) \<le> 1"
  shows "length (openEvents loc' (onSilence maxSilence loc now d)) \<le> 1"
  using assms closeFor_open_length [of loc' loc now "events d"]
  by (simp add: onSilence_def openEvents_def)

lemma detect_open_length:
  assumes "length (openEvents loc' d) \<le> 1"
  shows "length (openEvents loc' (detect maxSilence d ob)) \<le> 1"
proof (cases ob)
  case (Scored loc sc now)
  with onScore_open_length [OF assms] show ?thesis by simp
next
  case (NoData loc now)
  with onSilence_open_length [OF assms] show ?thesis by simp
qed

lemma run_open_length:
  "length (openEvents loc' d) \<le> 1 \<Longrightarrow>
   length (openEvents loc' (foldl (detect maxSilence) d obs)) \<le> 1"
proof (induction obs arbitrary: d)
  case Nil
  then show ?case by simp
next
  case (Cons ob obs)
  from Cons.prems have "length (openEvents loc' (detect maxSilence d ob)) \<le> 1"
    by (rule detect_open_length)
  then have "length (openEvents loc' (foldl (detect maxSilence) (detect maxSilence d ob) obs)) \<le> 1"
    by (rule Cons.IH)
  then show ?case by simp
qed

lemma onScore_no_second_event:
  assumes "openEvents loc d \<noteq> []"
  shows "length (events (onScore loc sc now d)) = length (events d)"
  using assms by (simp add: onScore_def openEvents_def closeFor_def)

text \<open>
  C9. In every state the strike detector reaches from its initial state, whatever the
  sequence of scores and silent cycles, every location has at most one open strike event
  (\<open>endedAt = None\<close>); and a score for a location that already has an open event
  creates no event.
\<close>

theorem C9_at_most_one_open_event:
  "length (openEvents loc (runDetector maxSilence obs)) \<le> 1 \<and>
   (openEvents loc' d \<noteq> [] \<longrightarrow> length (events (onScore loc' sc now d)) = length (events d))"
proof -
  have "length (openEvents loc initialDetector) \<le> 1"
    by (simp add: initialDetector_def openEvents_def)
  then have a: "length (openEvents loc (runDetector maxSilence obs)) \<le> 1"
    unfolding runDetector_def by (rule run_open_length)
  then show ?thesis
    by (simp add: onScore_no_second_event)
qed

lemma risingRun_events:
  "events (runDetector 10 risingRun) =
     [\<lparr>locationId = ''B1'', startedAt = 2, endedAt = None, peakScore = 95, peakAt = 3\<rparr>]"
  by (simp add: runDetector_def risingRun_def initialDetector_def onScore_def threshold_def
      openFor_def closeFor_def)

theorem C9_at_most_one_open_event_witness:
  "openEvents ''B1'' (runDetector 10 risingRun) \<noteq> [] \<and>
   length (events (onScore ''B1'' 90 4 (runDetector 10 risingRun))) = 1 \<and>
   length (openEvents ''B1'' (runDetector 10 risingRun)) \<le> 1"
proof -
  have o: "openEvents ''B1'' (runDetector 10 risingRun) \<noteq> []"
    by (simp add: openEvents_def risingRun_events openFor_def)
  from C9_at_most_one_open_event [of "''B1''" 10 risingRun "''B1''"
      "runDetector 10 risingRun" 90 4] o
  show ?thesis by (simp add: risingRun_events)
qed

text \<open>The life cycle the specification gives as a test: the scores 50, 80, 95, 60 yield one
  event, with peak 95, closed when the score drops to 60.\<close>

lemma detector_lifecycle_example:
  "events (runDetector 10 [Scored ''B1'' 50 1, Scored ''B1'' 80 2, Scored ''B1'' 95 3, Scored ''B1'' 60 4]) =
     [\<lparr>locationId = ''B1'', startedAt = 2, endedAt = Some 4, peakScore = 95, peakAt = 3\<rparr>]"
  by (simp add: runDetector_def initialDetector_def onScore_def threshold_def
      openFor_def closeFor_def)

end
